theory Spec2Isabelle
  imports Complex_Main
begin

section \<open>PhantomPay: the offline ledger and its reconciliation\<close>

text \<open>
  The development embeds two parts of the repository.

  \<^item> The local "shadow ledger" of \<^verbatim>\<open>src/lib/db.ts\<close> and the sync engine
    (\<^verbatim>\<open>syncOfflineTransactions\<close>): the Dexie tables are lists of rows in primary-key
    order and a map from user id to wallet record; every operation takes the database and
    returns the new one; \<^verbatim>\<open>Date.now()\<close> is a parameter.
  \<^item> The PL/pgSQL function \<^verbatim>\<open>process_offline_batch\<close> of the database schema: the
    tables \<^verbatim>\<open>profiles\<close> and \<^verbatim>\<open>transactions\<close>, the loop over the batch, and the
    statements that can raise (a timestamp that does not fit \<^verbatim>\<open>BIGINT\<close>, a value that does
    not fit a \<^verbatim>\<open>NUMERIC(12, 2)\<close> column), which abort the function and roll it back.

  Amounts and balances are rationals. On the server \<^verbatim>\<open>NUMERIC\<close> is exact decimal
  arithmetic. On the client a number is an IEEE 754 double; every finite double is a
  rational, and the sums and differences the client computes are rounded to the nearest
  double (\<open>js_add\<close>, \<open>js_sub\<close> below).
\<close>

subsection \<open>Data model\<close>

text \<open>\<^verbatim>\<open>type: 'credit' | 'debit'\<close>, also the \<^verbatim>\<open>CHECK\<close> of the \<^verbatim>\<open>transactions\<close> table.\<close>

datatype tx_type = credit | debit

text \<open>The sync states a local transaction can be in.\<close>

datatype sync_status = pending | syncing | synced | failed | conflict

text \<open>
  \<^verbatim>\<open>OfflineTransaction\<close>: a row of the local \<^verbatim>\<open>transactions\<close> table, and, serialised, an
  element of the batch sent to the server. \<^verbatim>\<open>tx_id\<close> is the auto-incremented key
  \<^verbatim>\<open>id\<close>, \<^verbatim>\<open>tx_type\<close> the field \<^verbatim>\<open>type\<close>. A field that can be absent is an option.
\<close>

record offline_transaction =
  tx_id :: nat
  offline_id :: string
  user_id :: string
  recipient_id :: "string option"
  amount :: rat
  tx_type :: tx_type
  description :: "string option"
  timestamp :: int
  sync_status :: sync_status
  signature :: "string option"
  retry_count :: "nat option"
  last_sync_attempt :: "int option"

text \<open>
  \<^verbatim>\<open>WalletState\<close>, keyed by the user id. The sync engine builds a wallet from \<^verbatim>\<open>id\<close>,
  \<^verbatim>\<open>cached_balance\<close>, \<^verbatim>\<open>shadow_balance\<close> and \<^verbatim>\<open>last_updated\<close> alone, so the other
  fields are optional.
\<close>

record wallet_state =
  wallet_id :: string
  cached_balance :: rat
  shadow_balance :: rat
  last_updated :: int
  pending_debits :: "rat option"
  pending_credits :: "rat option"
  last_sync_success :: "int option"

text \<open>The local database: the two Dexie tables.\<close>

record local_db =
  transactions :: "offline_transaction list"
  wallet :: "string \<rightharpoonup> wallet_state"

text \<open>
  \<^verbatim>\<open>SyncResponse\<close>, the JSON object \<^verbatim>\<open>process_offline_batch\<close> returns:
  \<^verbatim>\<open>error\<close> is present on the two early returns only, \<^verbatim>\<open>failed_ids\<close> holds
  \<^verbatim>\<open>{offline_id, reason}\<close> pairs, and the client tests \<^verbatim>\<open>new_balance\<close> against
  \<^verbatim>\<open>undefined\<close>.
\<close>

record sync_response =
  error :: "string option"
  processed_ids :: "string list"
  failed_ids :: "(string \<times> string) list"
  new_balance :: "rat option"

text \<open>The server tables: a row of \<^verbatim>\<open>profiles\<close> and a row of \<^verbatim>\<open>transactions\<close>.\<close>

record profile =
  balance :: rat
  last_synced_at :: "int option"

record ledger_row =
  row_user_id :: string
  row_amount :: rat
  row_type :: tx_type
  row_description :: string
  row_status :: string
  row_offline_id :: string
  row_signature :: string

record server_db =
  profiles :: "string \<rightharpoonup> profile"
  srv_transactions :: "ledger_row list"

subsection \<open>The reconciliation service: \<^verbatim>\<open>process_offline_batch\<close>\<close>

text \<open>
  The statements of the function that can raise. Storing a \<^verbatim>\<open>NUMERIC\<close> into a
  \<^verbatim>\<open>NUMERIC(12, 2)\<close> column rounds it to two decimals (ties away from zero) and raises
  "numeric field overflow" when the rounded value needs more than ten digits before the
  point. The cast \<^verbatim>\<open>(tx->>'timestamp')::BIGINT\<close> raises "out of range for type bigint"
  when the timestamp is not a 64-bit signed integer.
\<close>

datatype db_error = Numeric_field_overflow | Bigint_out_of_range

definition fits_bigint :: "int \<Rightarrow> bool" where
  "fits_bigint t = (- 9223372036854775808 \<le> t \<and> t \<le> 9223372036854775807)"

definition numeric_12_2 :: "rat \<Rightarrow> rat option" where
  "numeric_12_2 x =
     (let n = \<lfloor>\<bar>x\<bar> * 100 + 1 / 2\<rfloor>
      in if n < 10 ^ 12 then Some (sgn x * of_int n / 100) else None)"

text \<open>The variables of the function that the loop changes.\<close>

record batch_state =
  bs_new_balance :: rat
  bs_transactions :: "ledger_row list"
  bs_processed_ids :: "string list"
  bs_failed_ids :: "(string \<times> string) list"

text \<open>\<^verbatim>\<open>SELECT COUNT(*) FROM transactions WHERE offline_id = tx_offline_id\<close>.\<close>

definition existing_count :: "ledger_row list \<Rightarrow> string \<Rightarrow> nat" where
  "existing_count rows oid = length (filter (\<lambda>r. row_offline_id r = oid) rows)"

text \<open>The \<^verbatim>\<open>INSERT INTO transactions\<close> of an accepted entry.\<close>

definition insert_transaction ::
  "string \<Rightarrow> offline_transaction \<Rightarrow> ledger_row list \<Rightarrow> db_error + ledger_row list" where
  "insert_transaction user_uuid tx rows =
     (case numeric_12_2 (amount tx) of
        None \<Rightarrow> Inl Numeric_field_overflow
      | Some a \<Rightarrow>
          Inr (rows @
            [\<lparr>row_user_id = user_uuid, row_amount = a, row_type = tx_type tx,
              row_description = (case description tx of None \<Rightarrow> [] | Some d \<Rightarrow> d),
              row_status = ''synced'', row_offline_id = offline_id tx,
              row_signature = (case signature tx of None \<Rightarrow> [] | Some g \<Rightarrow> g)\<rparr>]))"

text \<open>
  One pass of the loop body, in the order of the source's statements: the fields of the
  entry are read first, then come the tests. Of the two casts, the one of the timestamp
  to \<^verbatim>\<open>BIGINT\<close> can raise on an entry the client sends (its value is not used afterwards);
  the amount is a JavaScript number, and every finite one is within the range of
  \<^verbatim>\<open>NUMERIC\<close>.
\<close>

definition process_tx ::
  "string \<Rightarrow> offline_transaction \<Rightarrow> batch_state \<Rightarrow> db_error + batch_state" where
  "process_tx user_uuid tx st =
     (if \<not> fits_bigint (timestamp tx) then Inl Bigint_out_of_range
      else if existing_count (bs_transactions st) (offline_id tx) > 0 then
        Inr (st\<lparr>bs_processed_ids := bs_processed_ids st @ [offline_id tx]\<rparr>)
      else if signature tx = None \<or> signature tx = Some [] then
        Inr (st\<lparr>bs_failed_ids := bs_failed_ids st @ [(offline_id tx, ''Missing signature'')]\<rparr>)
      else if tx_type tx = debit \<and> bs_new_balance st < amount tx then
        Inr (st\<lparr>bs_failed_ids :=
                   bs_failed_ids st @ [(offline_id tx, ''Insufficient balance'')]\<rparr>)
      else
        (let nb = (if tx_type tx = debit then bs_new_balance st - amount tx
                   else bs_new_balance st + amount tx)
         in case insert_transaction user_uuid tx (bs_transactions st) of
              Inl e \<Rightarrow> Inl e
            | Inr rows \<Rightarrow>
                Inr (st\<lparr>bs_new_balance := nb, bs_transactions := rows,
                        bs_processed_ids := bs_processed_ids st @ [offline_id tx]\<rparr>)))"

text \<open>The \<^verbatim>\<open>FOR tx IN ... LOOP\<close>: the batch in submitted order; an exception ends it.\<close>

fun process_loop ::
  "string \<Rightarrow> offline_transaction list \<Rightarrow> batch_state \<Rightarrow> db_error + batch_state" where
  "process_loop user_uuid [] st = Inr st"
| "process_loop user_uuid (tx # txs) st =
     (case process_tx user_uuid tx st of
        Inl e \<Rightarrow> Inl e
      | Inr st' \<Rightarrow> process_loop user_uuid txs st')"

text \<open>
  The function. \<^verbatim>\<open>auth_uid\<close> is \<^verbatim>\<open>auth.uid()\<close>, \<^verbatim>\<open>now\<close> is \<^verbatim>\<open>NOW()\<close>. An
  exception (\<open>Inl\<close>) leaves the database as it was: the function runs in one transaction.
\<close>

definition process_offline_batch ::
  "int \<Rightarrow> string option \<Rightarrow> offline_transaction list \<Rightarrow> server_db
     \<Rightarrow> db_error + (sync_response \<times> server_db)" where
  "process_offline_batch now auth_uid payload db =
     (case auth_uid of
        None \<Rightarrow>
          Inr (\<lparr>error = Some ''Not authenticated'', processed_ids = [], failed_ids = [],
                new_balance = Some 0\<rparr>, db)
      | Some user_uuid \<Rightarrow>
          (case profiles db user_uuid of
             None \<Rightarrow>
               Inr (\<lparr>error = Some ''Profile not found'', processed_ids = [],
                     failed_ids = [], new_balance = Some 0\<rparr>, db)
           | Some p \<Rightarrow>
               (case process_loop user_uuid payload
                       \<lparr>bs_new_balance = balance p, bs_transactions = srv_transactions db,
                        bs_processed_ids = [], bs_failed_ids = []\<rparr> of
                  Inl e \<Rightarrow> Inl e
                | Inr st \<Rightarrow>
                    (case numeric_12_2 (bs_new_balance st) of
                       None \<Rightarrow> Inl Numeric_field_overflow
                     | Some b \<Rightarrow>
                         Inr (\<lparr>error = None, processed_ids = bs_processed_ids st,
                               failed_ids = bs_failed_ids st,
                               new_balance = Some (bs_new_balance st)\<rparr>,
                              db\<lparr>profiles := (profiles db)(user_uuid \<mapsto>
                                     p\<lparr>balance := b, last_synced_at := Some now\<rparr>),
                                 srv_transactions := bs_transactions st\<rparr>)))))"

subsection \<open>The batch algorithm as the design states it\<close>

text \<open>
  The specification side of the comparison, written from the design's algorithm for the
  reconciliation service and not from the code. For each entry in submitted order, given
  the identifiers in the authoritative store and the running balance: an entry whose
  identifier is already stored is a replay (processed, balance untouched); else an entry
  without a signature is rejected; else a debit whose amount exceeds the running balance is
  rejected; else the entry is accepted: its amount is added (credit) or subtracted
  (debit), and its identifier is stored.
\<close>

datatype outcome = Replayed | Missing_signature | Insufficient_balance | Accepted

fun spec_outcomes ::
  "string list \<Rightarrow> rat \<Rightarrow> offline_transaction list \<Rightarrow> (offline_transaction \<times> outcome) list" where
  "spec_outcomes stored running [] = []"
| "spec_outcomes stored running (tx # txs) =
     (if offline_id tx \<in> set stored then
        (tx, Replayed) # spec_outcomes stored running txs
      else if signature tx = None \<or> signature tx = Some [] then
        (tx, Missing_signature) # spec_outcomes stored running txs
      else if tx_type tx = debit \<and> running < amount tx then
        (tx, Insufficient_balance) # spec_outcomes stored running txs
      else
        (tx, Accepted) #
          spec_outcomes (stored @ [offline_id tx])
            (if tx_type tx = debit then running - amount tx else running + amount tx) txs)"

text \<open>The entries with one of the given outcomes, and the reason reported for a rejection.\<close>

definition entries_with :: "outcome list \<Rightarrow> (offline_transaction \<times> outcome) list
    \<Rightarrow> offline_transaction list" where
  "entries_with os xs = map fst (filter (\<lambda>x. snd x \<in> set os) xs)"

fun reason_text :: "outcome \<Rightarrow> string" where
  "reason_text Missing_signature = ''Missing signature''"
| "reason_text Insufficient_balance = ''Insufficient balance''"
| "reason_text Replayed = []"
| "reason_text Accepted = []"

definition rejections :: "(offline_transaction \<times> outcome) list \<Rightarrow> (string \<times> string) list" where
  "rejections xs =
     map (\<lambda>x. (offline_id (fst x), reason_text (snd x)))
       (filter (\<lambda>x. snd x \<in> {Missing_signature, Insufficient_balance}) xs)"

subsection \<open>The local ledger store: \<^verbatim>\<open>src/lib/db.ts\<close>\<close>

text \<open>
  Dexie collections. A table is the list of its rows in primary-key order;
  \<^verbatim>\<open>where(...).equals(...)\<close>, \<^verbatim>\<open>.and(...)\<close> and \<^verbatim>\<open>.toArray()\<close> select rows,
  \<^verbatim>\<open>.modify(changes)\<close> rewrites the selected rows in place, \<^verbatim>\<open>.delete()\<close> removes them
  and returns how many it removed.
\<close>

definition collection_modify :: "('r \<Rightarrow> bool) \<Rightarrow> ('r \<Rightarrow> 'r) \<Rightarrow> 'r list \<Rightarrow> 'r list" where
  "collection_modify sel changes rows = map (\<lambda>r. if sel r then changes r else r) rows"

definition collection_delete :: "('r \<Rightarrow> bool) \<Rightarrow> 'r list \<Rightarrow> 'r list \<times> nat" where
  "collection_delete sel rows = (filter (\<lambda>r. \<not> sel r) rows, length (filter sel rows))"

definition getPendingTransactions :: "string \<Rightarrow> local_db \<Rightarrow> offline_transaction list" where
  "getPendingTransactions userId db =
     filter (\<lambda>tx. sync_status tx = pending)
       (filter (\<lambda>tx. user_id tx = userId) (transactions db))"

definition getWalletState :: "string \<Rightarrow> local_db \<Rightarrow> wallet_state option" where
  "getWalletState userId db = wallet db userId"

definition updateWalletState :: "wallet_state \<Rightarrow> local_db \<Rightarrow> local_db" where
  "updateWalletState state db = db\<lparr>wallet := (wallet db)(wallet_id state \<mapsto> state)\<rparr>"

definition markTransactionsSynced :: "string list \<Rightarrow> local_db \<Rightarrow> local_db" where
  "markTransactionsSynced offlineIds db =
     db\<lparr>transactions :=
          collection_modify (\<lambda>tx. offline_id tx \<in> set offlineIds)
            (\<lambda>tx. tx\<lparr>sync_status := synced\<rparr>) (transactions db)\<rparr>"

text \<open>
  The two retention purges share their body; \<^verbatim>\<open>daysOld\<close> defaults to 30 when the caller
  leaves it out (\<open>None\<close>). \<^verbatim>\<open>cleanupOldTransactions\<close> also returns the number of rows
  deleted.
\<close>

definition cutoffTime :: "int option \<Rightarrow> int \<Rightarrow> int" where
  "cutoffTime daysOld now =
     now - (case daysOld of None \<Rightarrow> 30 | Some d \<Rightarrow> d) * 24 * 60 * 60 * 1000"

definition cleanupOldTransactions ::
  "string \<Rightarrow> int option \<Rightarrow> int \<Rightarrow> local_db \<Rightarrow> nat \<times> local_db" where
  "cleanupOldTransactions userId daysOld now db =
     (let (rows, n) =
            collection_delete
              (\<lambda>tx. user_id tx = userId \<and>
                    (sync_status tx = synced \<and> timestamp tx < cutoffTime daysOld now))
              (transactions db)
      in (n, db\<lparr>transactions := rows\<rparr>))"

definition clearOldSyncedTransactions :: "string \<Rightarrow> int option \<Rightarrow> int \<Rightarrow> local_db \<Rightarrow> local_db" where
  "clearOldSyncedTransactions userId daysOld now db =
     (let (rows, n) =
            collection_delete
              (\<lambda>tx. user_id tx = userId \<and>
                    (sync_status tx = synced \<and> timestamp tx < cutoffTime daysOld now))
              (transactions db)
      in db\<lparr>transactions := rows\<rparr>)"

text \<open>
  \<^verbatim>\<open>updateTransactionStatus\<close>: the changes are the new status and the time of the call;
  with \<^verbatim>\<open>incrementRetry\<close> the first row of that \<^verbatim>\<open>offline_id\<close> gives the retry count
  (\<^verbatim>\<open>tx.retry_count || 0\<close>), and every row of that \<^verbatim>\<open>offline_id\<close> gets the changes.
\<close>

definition updateTransactionStatus ::
  "string \<Rightarrow> sync_status \<Rightarrow> bool \<Rightarrow> int \<Rightarrow> local_db \<Rightarrow> local_db" where
  "updateTransactionStatus offlineId status incrementRetry now db =
     (let updates = (\<lambda>tx. tx\<lparr>sync_status := status, last_sync_attempt := Some now\<rparr>);
          updates' =
            (if incrementRetry then
               (case find (\<lambda>tx. offline_id tx = offlineId) (transactions db) of
                  Some tx \<Rightarrow>
                    (\<lambda>t. (updates t)\<lparr>retry_count :=
                            Some ((case retry_count tx of None \<Rightarrow> 0 | Some c \<Rightarrow> c) + 1)\<rparr>)
                | None \<Rightarrow> updates)
             else updates)
      in db\<lparr>transactions :=
              collection_modify (\<lambda>tx. offline_id tx = offlineId) updates' (transactions db)\<rparr>)"

text \<open>
  \<^verbatim>\<open>checkWalletStaleness\<close>: stale when there is no wallet, when \<^verbatim>\<open>last_sync_success\<close> is
  absent or zero (both falsy), or when it is more than 24 hours old.
\<close>

definition checkWalletStaleness :: "string \<Rightarrow> int \<Rightarrow> local_db \<Rightarrow> bool" where
  "checkWalletStaleness userId now db =
     (case getWalletState userId db of
        None \<Rightarrow> True
      | Some w \<Rightarrow>
          (case last_sync_success w of
             None \<Rightarrow> True
           | Some t \<Rightarrow>
               if t = 0 then True
               else (of_int (now - t) :: rat) / (1000 * 60 * 60) > 24))"

text \<open>
  JavaScript arithmetic on finite numbers. \<open>round_double\<close> rounds a rational to the
  nearest IEEE 754 binary64 value, ties to even: \<open>binade\<close> is the exponent \<open>e\<close> with
  \<open>2^e \<le> x < 2^(e+1)\<close>, not below -1022 (the subnormal range), the spacing of the doubles
  there is \<open>2^(e-52)\<close>, and a result of magnitude \<open>2^1024\<close> or more is an overflow. The sum
  and the difference of two doubles are the rounded exact results. \<open>None\<close> stands for a
  result that is not finite (\<^verbatim>\<open>Infinity\<close>, and \<^verbatim>\<open>NaN\<close> after it), which the number type
  of the model does not have; the two zeros are one value.
\<close>

definition pow2 :: "int \<Rightarrow> rat" where
  "pow2 e = (if 0 \<le> e then 2 ^ nat e else 1 / 2 ^ nat (- e))"

function exponent_up :: "int \<Rightarrow> rat \<Rightarrow> int" where
  "exponent_up e x = (if e < 1024 \<and> pow2 (e + 1) \<le> x then exponent_up (e + 1) x else e)"
  by pat_completeness auto
termination
  by (relation "measure (\<lambda>(e, x). nat (1024 - e))") auto

function exponent_down :: "int \<Rightarrow> rat \<Rightarrow> int" where
  "exponent_down e x = (if - 1022 < e \<and> x < pow2 e then exponent_down (e - 1) x else e)"
  by pat_completeness auto
termination
  by (relation "measure (\<lambda>(e, x). nat (e + 1022))") auto

declare exponent_up.simps [simp del]

declare exponent_down.simps [simp del]

definition binade :: "rat \<Rightarrow> int" where
  "binade x = (if 1 \<le> x then exponent_up 0 x else exponent_down (- 1) x)"

definition round_half_even :: "rat \<Rightarrow> int" where
  "round_half_even q =
     (let f = \<lfloor>q\<rfloor>; r = q - of_int f
      in if r < 1 / 2 then f else if 1 / 2 < r then f + 1
         else if even f then f else f + 1)"

definition round_double :: "rat \<Rightarrow> rat option" where
  "round_double x =
     (if x = 0 then Some 0
      else
        (let ulp = pow2 (binade \<bar>x\<bar> - 52);
             y = of_int (round_half_even (\<bar>x\<bar> / ulp)) * ulp
         in if pow2 1024 \<le> y then None else Some (sgn x * y)))"

definition js_add :: "rat \<Rightarrow> rat \<Rightarrow> rat option" where
  "js_add a b = round_double (a + b)"

definition js_sub :: "rat \<Rightarrow> rat \<Rightarrow> rat option" where
  "js_sub a b = round_double (a - b)"

text \<open>\<^verbatim>\<open>txs.reduce((sum, tx) => sum + tx.amount, sum0)\<close>, left to right.\<close>

fun js_sum :: "rat \<Rightarrow> offline_transaction list \<Rightarrow> rat option" where
  "js_sum sum0 [] = Some sum0"
| "js_sum sum0 (tx # txs) =
     (case js_add sum0 (amount tx) of None \<Rightarrow> None | Some s \<Rightarrow> js_sum s txs)"

text \<open>
  \<^verbatim>\<open>updateWalletPendingAmounts\<close>: both sums are computed first, then the wallet is read;
  without a wallet nothing is written. With a wallet the result is \<open>None\<close> when one of the
  numbers to be stored is not finite.
\<close>

definition updateWalletPendingAmounts :: "string \<Rightarrow> local_db \<Rightarrow> local_db option" where
  "updateWalletPendingAmounts userId db =
     (let pendingTxs = getPendingTransactions userId db;
          p_debits = js_sum 0 (filter (\<lambda>tx. tx_type tx = debit) pendingTxs);
          p_credits = js_sum 0 (filter (\<lambda>tx. tx_type tx = credit) pendingTxs)
      in case getWalletState userId db of
           None \<Rightarrow> Some db
         | Some w \<Rightarrow>
             (case p_debits of
                None \<Rightarrow> None
              | Some d \<Rightarrow>
                  (case p_credits of
                     None \<Rightarrow> None
                   | Some c \<Rightarrow>
                       (case js_sub (cached_balance w) d of
                          None \<Rightarrow> None
                        | Some x \<Rightarrow>
                            (case js_add x c of
                               None \<Rightarrow> None
                             | Some shadow \<Rightarrow>
                                 Some (updateWalletState
                                   (w\<lparr>pending_debits := Some d, pending_credits := Some c,
                                      shadow_balance := shadow\<rparr>) db))))))"

subsection \<open>The sync engine: \<^verbatim>\<open>syncOfflineTransactions\<close>\<close>

text \<open>
  \<^verbatim>\<open>online\<close> is \<^verbatim>\<open>typeof window !== 'undefined' && navigator.onLine\<close>, \<^verbatim>\<open>configured\<close>
  is \<^verbatim>\<open>isSupabaseConfigured()\<close>, and \<^verbatim>\<open>rpc\<close> is the call
  \<^verbatim>\<open>supabase.rpc('process_offline_batch', ...)\<close>: \<open>Inl\<close> its \<^verbatim>\<open>error\<close>, which the
  function throws and catches (returning \<^verbatim>\<open>null\<close>), \<open>Inr\<close> its \<^verbatim>\<open>data\<close>.
\<close>

definition syncOfflineTransactions ::
  "bool \<Rightarrow> bool \<Rightarrow> (offline_transaction list \<Rightarrow> string + sync_response) \<Rightarrow> int \<Rightarrow> string
     \<Rightarrow> local_db \<Rightarrow> sync_response option \<times> local_db" where
  "syncOfflineTransactions online configured rpc now userId db =
     (if \<not> online then (None, db)
      else if \<not> configured then (None, db)
      else
        (let pending_txs = getPendingTransactions userId db
         in if length pending_txs = 0 then
              (Some \<lparr>error = None, processed_ids = [], failed_ids = [],
                     new_balance = Some 0\<rparr>, db)
            else
              (case rpc pending_txs of
                 Inl e \<Rightarrow> (None, db)
               | Inr response \<Rightarrow>
                   (let db1 = (if length (processed_ids response) > 0
                               then markTransactionsSynced (processed_ids response) db
                               else db);
                        db2 = (case new_balance response of
                                 None \<Rightarrow> db1
                               | Some nb \<Rightarrow>
                                   updateWalletState
                                     \<lparr>wallet_id = userId, cached_balance = nb,
                                      shadow_balance = nb, last_updated = now,
                                      pending_debits = None, pending_credits = None,
                                      last_sync_success = None\<rparr> db1)
                    in (Some response, db2)))))"

text \<open>
  The remote call answered by \<^verbatim>\<open>process_offline_batch\<close> on a server database: an
  exception of the function reaches the client as the call's \<^verbatim>\<open>error\<close>.
\<close>

definition supabase_rpc ::
  "int \<Rightarrow> string option \<Rightarrow> server_db \<Rightarrow> offline_transaction list \<Rightarrow> string + sync_response" where
  "supabase_rpc now auth_uid sdb batch =
     (case process_offline_batch now auth_uid batch sdb of
        Inl Numeric_field_overflow \<Rightarrow> Inl ''numeric field overflow''
      | Inl Bigint_out_of_range \<Rightarrow> Inl ''out of range for type bigint''
      | Inr (response, sdb') \<Rightarrow> Inr response)"

subsection \<open>Example data\<close>

text \<open>
  Concrete inputs for the instances below: a signed pending transaction of user
  \<open>alice\<close>, a server on which \<open>alice\<close> has balance 50 and no transactions yet, and a
  local database whose wallet for \<open>alice\<close> was last synced at time 5.
\<close>

definition example_tx :: "string \<Rightarrow> tx_type \<Rightarrow> rat \<Rightarrow> offline_transaction" where
  "example_tx oid t a =
     \<lparr>tx_id = 0, offline_id = oid, user_id = ''alice'', recipient_id = None, amount = a,
      tx_type = t, description = Some ''lunch'', timestamp = 1000, sync_status = pending,
      signature = Some ''sig'', retry_count = None, last_sync_attempt = None\<rparr>"

definition example_server :: server_db where
  "example_server =
     \<lparr>profiles = [''alice'' \<mapsto> \<lparr>balance = 50, last_synced_at = None\<rparr>],
      srv_transactions = []\<rparr>"

text \<open>The row stored for \<open>example_tx oid t a\<close>, and a server holding such rows.\<close>

definition example_row :: "string \<Rightarrow> tx_type \<Rightarrow> rat \<Rightarrow> ledger_row" where
  "example_row oid t a =
     \<lparr>row_user_id = ''alice'', row_amount = a, row_type = t, row_description = ''lunch'',
      row_status = ''synced'', row_offline_id = oid, row_signature = ''sig''\<rparr>"

definition example_server_at :: "rat \<Rightarrow> int \<Rightarrow> ledger_row list \<Rightarrow> server_db" where
  "example_server_at b t rows =
     \<lparr>profiles = [''alice'' \<mapsto> \<lparr>balance = b, last_synced_at = Some t\<rparr>],
      srv_transactions = rows\<rparr>"

definition example_wallet :: wallet_state where
  "example_wallet =
     \<lparr>wallet_id = ''alice'', cached_balance = 500, shadow_balance = 400, last_updated = 0,
      pending_debits = Some 100, pending_credits = Some 0, last_sync_success = Some 5\<rparr>"

definition example_local :: "offline_transaction list \<Rightarrow> local_db" where
  "example_local txs = \<lparr>transactions = txs, wallet = [''alice'' \<mapsto> example_wallet]\<rparr>"

section \<open>Properties of the reconciliation service\<close>

subsection \<open>Storing into a \<^verbatim>\<open>NUMERIC(12, 2)\<close> column\<close>

lemma floor_add_half: "\<lfloor>(of_int n :: rat) + 1 / 2\<rfloor> = n"
  by (rule floor_unique) simp_all

lemma numeric_12_2_of_int:
  "numeric_12_2 (of_int k) = (if \<bar>k\<bar> < 10 ^ 10 then Some (of_int k) else None)"
proof -
  have "\<bar>(of_int k :: rat)\<bar> * 100 + 1 / 2 = of_int (\<bar>k\<bar> * 100) + 1 / 2"
    by simp
  then have n: "\<lfloor>\<bar>(of_int k :: rat)\<bar> * 100 + 1 / 2\<rfloor> = \<bar>k\<bar> * 100"
    using floor_add_half [of "\<bar>k\<bar> * 100"] by simp
  have s: "sgn (of_int k :: rat) * of_int (\<bar>k\<bar> * 100) / 100 = of_int k"
    by (cases "k < 0") (simp_all add: sgn_if)
  have b: "(\<bar>k\<bar> * 100 < 10 ^ 12) = (\<bar>k\<bar> < 10 ^ 10)"
    by simp
  show ?thesis
    unfolding numeric_12_2_def Let_def n s b ..
qed

lemma numeric_12_2_numeral:
  "numeric_12_2 (numeral v) = (if (numeral v :: int) < 10 ^ 10 then Some (numeral v) else None)"
  using numeric_12_2_of_int [of "numeral v"] by simp

lemma numeric_12_2_zero: "numeric_12_2 0 = Some 0"
  using numeric_12_2_of_int [of 0] by simp

lemma numeric_12_2_neg_numeral:
  "numeric_12_2 (- numeral v) = (if (numeral v :: int) < 10 ^ 10 then Some (- numeral v) else None)"
  using numeric_12_2_of_int [of "- numeral v"] by simp

lemma numeric_12_2_idem:
  assumes "numeric_12_2 x = Some b"
  shows "numeric_12_2 b = Some b"
proof -
  define n where "n = \<lfloor>\<bar>x\<bar> * 100 + 1 / 2\<rfloor>"
  from assms have lt: "n < 10 ^ 12" and b: "b = sgn x * of_int n / 100"
    by (auto simp: numeric_12_2_def Let_def n_def split: if_splits)
  have n0: "0 \<le> n" unfolding n_def by simp
  show ?thesis
  proof (cases "x = 0 \<or> n = 0")
    case True
    then have "b = 0" using b by auto
    then show ?thesis by (simp add: numeric_12_2_zero)
  next
    case False
    then have x0: "x \<noteq> 0" and npos: "0 < n" using n0 by auto
    have b': "b = (if x < 0 then - (of_int n / 100) else of_int n / 100)"
      unfolding b using x0 by (simp add: sgn_if)
    have ab: "\<bar>b\<bar> * 100 = of_int n"
      using b' n0 by (simp split: if_splits)
    have fl: "\<lfloor>\<bar>b\<bar> * 100 + 1 / 2\<rfloor> = n"
      unfolding ab by (rule floor_add_half)
    have sg: "sgn b = sgn x"
      using b' npos x0 by (simp add: sgn_if)
    have "numeric_12_2 b = (if n < 10 ^ 12 then Some (sgn x * of_int n / 100) else None)"
      unfolding numeric_12_2_def Let_def fl sg ..
    also have "\<dots> = Some b"
      unfolding b using lt by simp
    finally show ?thesis .
  qed
qed

text \<open>Two values with three decimals, for the rounding example below.\<close>

lemma numeric_12_2_examples:
  "numeric_12_2 (1 / 1000) = Some 0" "numeric_12_2 (50001 / 1000) = Some 50"
proof -
  have "\<lfloor>\<bar>1 / 1000 :: rat\<bar> * 100 + 1 / 2\<rfloor> = 0"
    by (rule floor_unique) simp_all
  then show "numeric_12_2 (1 / 1000) = Some 0"
    by (simp add: numeric_12_2_def)
  have "\<lfloor>\<bar>50001 / 1000 :: rat\<bar> * 100 + 1 / 2\<rfloor> = 5000"
    by (rule floor_unique) simp_all
  then show "numeric_12_2 (50001 / 1000) = Some 50"
    by (simp add: numeric_12_2_def)
qed

subsection \<open>Order sensitivity\<close>

text \<open>
  Claim C2. The batch is processed in submitted order against a running balance. On a
  starting balance of 50, with two signed entries of distinct identifiers that the store
  has not seen (and whose timestamps are 64-bit integers, so that reading them does not
  raise): the batch [debit 100, credit 100] has the debit rejected with reason
  "Insufficient balance" and the credit accepted, and returns (and persists) the balance
  150; the batch [credit 100, debit 100] has both accepted and returns the balance 50.
  The rows added to \<^verbatim>\<open>transactions\<close> are the credit's in the first case and both in the
  second.
\<close>

theorem order_sensitivity:
  assumes prof: "profiles db u = Some p" and bal: "balance p = 50"
    and d: "tx_type d = debit" "amount d = 100"
    and c: "tx_type c = credit" "amount c = 100"
    and ids: "offline_id d \<noteq> offline_id c"
    and fresh: "existing_count (srv_transactions db) (offline_id d) = 0"
               "existing_count (srv_transactions db) (offline_id c) = 0"
    and sig: "signature d = Some sd" "sd \<noteq> []" "signature c = Some sc" "sc \<noteq> []"
    and ts: "fits_bigint (timestamp d)" "fits_bigint (timestamp c)"
  shows "(\<exists>db'. process_offline_batch now (Some u) [d, c] db =
            Inr (\<lparr>error = None, processed_ids = [offline_id c],
                  failed_ids = [(offline_id d, ''Insufficient balance'')],
                  new_balance = Some 150\<rparr>, db') \<and>
            map_option balance (profiles db' u) = Some 150 \<and>
            map row_offline_id (srv_transactions db') =
              map row_offline_id (srv_transactions db) @ [offline_id c]) \<and>
         (\<exists>db'. process_offline_batch now (Some u) [c, d] db =
            Inr (\<lparr>error = None, processed_ids = [offline_id c, offline_id d],
                  failed_ids = [], new_balance = Some 50\<rparr>, db') \<and>
            map_option balance (profiles db' u) = Some 50 \<and>
            map row_offline_id (srv_transactions db') =
              map row_offline_id (srv_transactions db) @ [offline_id c, offline_id d])"
proof -
  have n100: "numeric_12_2 100 = Some 100" and n150: "numeric_12_2 150 = Some 150"
    and n50: "numeric_12_2 50 = Some 50"
    by (simp_all add: numeric_12_2_numeral)
  have first: "\<exists>db'. process_offline_batch now (Some u) [d, c] db =
            Inr (\<lparr>error = None, processed_ids = [offline_id c],
                  failed_ids = [(offline_id d, ''Insufficient balance'')],
                  new_balance = Some 150\<rparr>, db') \<and>
            map_option balance (profiles db' u) = Some 150 \<and>
            map row_offline_id (srv_transactions db') =
              map row_offline_id (srv_transactions db) @ [offline_id c]"
    using prof bal d c fresh sig ts
    by (simp add: process_offline_batch_def process_tx_def insert_transaction_def n100 n150)
  have second: "\<exists>db'. process_offline_batch now (Some u) [c, d] db =
            Inr (\<lparr>error = None, processed_ids = [offline_id c, offline_id d],
                  failed_ids = [], new_balance = Some 50\<rparr>, db') \<and>
            map_option balance (profiles db' u) = Some 50 \<and>
            map row_offline_id (srv_transactions db') =
              map row_offline_id (srv_transactions db) @ [offline_id c, offline_id d]"
    using prof bal d c fresh sig ts ids
    by (simp add: process_offline_batch_def process_tx_def insert_transaction_def n100 n50
        existing_count_def)
  from first second show ?thesis ..
qed

text \<open>The instance on the example server, for two entries of \<open>alice\<close>.\<close>

theorem order_sensitivity_witness:
  "(\<exists>db'. process_offline_batch 7 (Some ''alice'')
            [example_tx ''d1'' debit 100, example_tx ''c1'' credit 100] example_server =
            Inr (\<lparr>error = None, processed_ids = [''c1''],
                  failed_ids = [(''d1'', ''Insufficient balance'')],
                  new_balance = Some 150\<rparr>, db') \<and>
            map_option balance (profiles db' ''alice'') = Some 150 \<and>
            map row_offline_id (srv_transactions db') = [''c1'']) \<and>
   (\<exists>db'. process_offline_batch 7 (Some ''alice'')
            [example_tx ''c1'' credit 100, example_tx ''d1'' debit 100] example_server =
            Inr (\<lparr>error = None, processed_ids = [''c1'', ''d1''],
                  failed_ids = [], new_balance = Some 50\<rparr>, db') \<and>
            map_option balance (profiles db' ''alice'') = Some 50 \<and>
            map row_offline_id (srv_transactions db') = [''c1'', ''d1''])"
  using order_sensitivity [of example_server "''alice''" "\<lparr>balance = 50, last_synced_at = None\<rparr>"
      "example_tx ''d1'' debit 100" "example_tx ''c1'' credit 100" "''sig''" "''sig''" 7]
  by (simp add: example_server_def example_tx_def existing_count_def fits_bigint_def)

subsection \<open>The loop body\<close>

text \<open>What one pass of the loop body can do to the state, when it does not raise.\<close>

lemma process_tx_fits:
  "process_tx u tx st = Inr st' \<Longrightarrow> fits_bigint (timestamp tx)"
  by (simp add: process_tx_def split: if_splits)

lemma process_tx_cases [consumes 1, case_names Replay Rejected Accepted]:
  assumes run: "process_tx u tx st = Inr st'"
  obtains
    (Replay) "0 < existing_count (bs_transactions st) (offline_id tx)"
      "st' = st\<lparr>bs_processed_ids := bs_processed_ids st @ [offline_id tx]\<rparr>"
  | (Rejected) reason where "existing_count (bs_transactions st) (offline_id tx) = 0"
      "st' = st\<lparr>bs_failed_ids := bs_failed_ids st @ [(offline_id tx, reason)]\<rparr>"
  | (Accepted) row where "existing_count (bs_transactions st) (offline_id tx) = 0"
      "row_offline_id row = offline_id tx"
      "st' = st\<lparr>bs_new_balance :=
                   (if tx_type tx = debit then bs_new_balance st - amount tx
                    else bs_new_balance st + amount tx),
                 bs_transactions := bs_transactions st @ [row],
                 bs_processed_ids := bs_processed_ids st @ [offline_id tx]\<rparr>"
proof (cases "0 < existing_count (bs_transactions st) (offline_id tx)")
  note fits = process_tx_fits [OF run]
  case True
  with run fits have "st' = st\<lparr>bs_processed_ids := bs_processed_ids st @ [offline_id tx]\<rparr>"
    by (simp add: process_tx_def)
  with True show ?thesis by (rule Replay)
next
  note fits = process_tx_fits [OF run]
  case fresh: False
  show ?thesis
  proof (cases "signature tx = None \<or> signature tx = Some []")
    case True
    with run fresh fits have
      "st' = st\<lparr>bs_failed_ids := bs_failed_ids st @ [(offline_id tx, ''Missing signature'')]\<rparr>"
      by (simp add: process_tx_def)
    with fresh show ?thesis by (simp add: Rejected)
  next
    case signed: False
    show ?thesis
    proof (cases "tx_type tx = debit \<and> bs_new_balance st < amount tx")
      case True
      with run fresh signed fits have
        "st' = st\<lparr>bs_failed_ids :=
                    bs_failed_ids st @ [(offline_id tx, ''Insufficient balance'')]\<rparr>"
        by (simp add: process_tx_def)
      with fresh show ?thesis by (simp add: Rejected)
    next
      case False
      with run fresh signed fits obtain rows where
        ins: "insert_transaction u tx (bs_transactions st) = Inr rows" and
        st': "st' = st\<lparr>bs_new_balance :=
                   (if tx_type tx = debit then bs_new_balance st - amount tx
                    else bs_new_balance st + amount tx),
                 bs_transactions := rows,
                 bs_processed_ids := bs_processed_ids st @ [offline_id tx]\<rparr>"
        by (auto simp: process_tx_def Let_def split: sum.splits)
      from ins obtain row where "rows = bs_transactions st @ [row]"
        "row_offline_id row = offline_id tx"
        by (auto simp: insert_transaction_def split: option.splits)
      with fresh st' show ?thesis by (simp add: Accepted)
    qed
  qed
qed

lemma existing_count_pos_iff:
  "0 < existing_count rows oid \<longleftrightarrow> oid \<in> set (map row_offline_id rows)"
  by (auto simp: existing_count_def filter_empty_conv)

subsection \<open>Balance conservation\<close>

text \<open>
  The loop against the design's algorithm: whenever the loop returns, its balance, its two
  lists and the rows it added are the ones the outcomes of \<open>spec_outcomes\<close> give.
\<close>

lemma process_loop_refines:
  fixes st :: batch_state
  defines "outs \<equiv> \<lambda>txs (st :: batch_state).
             spec_outcomes (map row_offline_id (bs_transactions st)) (bs_new_balance st) txs"
  shows "process_loop u txs st = Inr st' \<Longrightarrow>
    bs_new_balance st' =
      bs_new_balance st
      + sum_list (map amount (filter (\<lambda>tx. tx_type tx = credit) (entries_with [Accepted] (outs txs st))))
      - sum_list (map amount (filter (\<lambda>tx. tx_type tx = debit) (entries_with [Accepted] (outs txs st)))) \<and>
    bs_processed_ids st' =
      bs_processed_ids st @ map offline_id (entries_with [Replayed, Accepted] (outs txs st)) \<and>
    bs_failed_ids st' = bs_failed_ids st @ rejections (outs txs st) \<and>
    map row_offline_id (bs_transactions st') =
      map row_offline_id (bs_transactions st) @ map offline_id (entries_with [Accepted] (outs txs st))"
proof (induction txs arbitrary: st)
  case Nil
  then show ?case by (simp add: outs_def entries_with_def rejections_def)
next
  case (Cons tx txs)
  from Cons.prems obtain st1 where
    step: "process_tx u tx st = Inr st1" and rest: "process_loop u txs st1 = Inr st'"
    by (auto split: sum.splits)
  note fits = process_tx_fits [OF step]
  note ih = Cons.IH [OF rest]
  show ?case
  proof (cases "offline_id tx \<in> set (map row_offline_id (bs_transactions st))")
    case True
    with step fits have st1: "st1 = st\<lparr>bs_processed_ids := bs_processed_ids st @ [offline_id tx]\<rparr>"
      by (simp add: process_tx_def existing_count_pos_iff)
    from True have "outs (tx # txs) st = (tx, Replayed) # outs txs st1"
      unfolding outs_def st1 by simp
    with ih show ?thesis
      by (simp add: st1 entries_with_def rejections_def)
  next
    case fresh: False
    then have ec: "\<not> 0 < existing_count (bs_transactions st) (offline_id tx)"
      by (simp only: existing_count_pos_iff not_False_eq_True)
    show ?thesis
    proof (cases "signature tx = None \<or> signature tx = Some []")
      case True
      with step fits ec have st1:
        "st1 = st\<lparr>bs_failed_ids := bs_failed_ids st @ [(offline_id tx, ''Missing signature'')]\<rparr>"
        by (simp add: process_tx_def)
      from fresh True have "outs (tx # txs) st = (tx, Missing_signature) # outs txs st1"
        unfolding outs_def st1 by auto
      with ih show ?thesis
        by (simp add: st1 entries_with_def rejections_def)
    next
      case signed: False
      show ?thesis
      proof (cases "tx_type tx = debit \<and> bs_new_balance st < amount tx")
        case True
        with step fits ec signed have st1:
          "st1 = st\<lparr>bs_failed_ids :=
                      bs_failed_ids st @ [(offline_id tx, ''Insufficient balance'')]\<rparr>"
          by (simp add: process_tx_def)
        from fresh signed True have
          "outs (tx # txs) st = (tx, Insufficient_balance) # outs txs st1"
          unfolding outs_def st1 by auto
        with ih show ?thesis
          by (simp add: st1 entries_with_def rejections_def)
      next
        case enough: False
        with step fits ec signed obtain rows where
          ins: "insert_transaction u tx (bs_transactions st) = Inr rows" and
          st1: "st1 = st\<lparr>bs_new_balance :=
                   (if tx_type tx = debit then bs_new_balance st - amount tx
                    else bs_new_balance st + amount tx),
                 bs_transactions := rows,
                 bs_processed_ids := bs_processed_ids st @ [offline_id tx]\<rparr>"
          by (auto simp: process_tx_def Let_def split: sum.splits)
        from ins obtain row where rows: "rows = bs_transactions st @ [row]"
          and row: "row_offline_id row = offline_id tx"
          by (auto simp: insert_transaction_def split: option.splits)
        from fresh signed enough have
          "outs (tx # txs) st = (tx, Accepted) # outs txs st1"
          unfolding outs_def st1 rows by (auto simp: row)
        with ih show ?thesis
          by (cases "tx_type tx") (simp_all add: st1 rows row entries_with_def rejections_def)
      qed
    qed
  qed
qed

text \<open>
  Claim C1. When the user has a profile and the call returns, the returned
  \<^verbatim>\<open>new_balance\<close> is the starting balance plus the amounts of the accepted credit entries
  minus the amounts of the accepted debit entries. The accepted entries are those the
  design's algorithm accepts: identifier not yet stored, signature present, and, for a
  debit, amount within the running balance. They and the replayed duplicates make up
  \<^verbatim>\<open>processed_ids\<close>, the rejected entries make up \<^verbatim>\<open>failed_ids\<close>, and the accepted
  entries alone are added to \<^verbatim>\<open>transactions\<close>; rejected entries and replayed duplicates
  contribute nothing to the balance.
\<close>

theorem balance_conservation:
  fixes db :: server_db and u :: string and payload :: "offline_transaction list"
    and p :: profile
  defines "outs \<equiv> spec_outcomes (map row_offline_id (srv_transactions db)) (balance p) payload"
  assumes prof: "profiles db u = Some p"
    and run: "process_offline_batch now (Some u) payload db = Inr (r, db')"
  shows "new_balance r =
           Some (balance p
                 + sum_list (map amount
                     (filter (\<lambda>tx. tx_type tx = credit) (entries_with [Accepted] outs)))
                 - sum_list (map amount
                     (filter (\<lambda>tx. tx_type tx = debit) (entries_with [Accepted] outs)))) \<and>
         processed_ids r = map offline_id (entries_with [Replayed, Accepted] outs) \<and>
         failed_ids r = rejections outs \<and>
         error r = None \<and>
         map row_offline_id (srv_transactions db') =
           map row_offline_id (srv_transactions db) @
           map offline_id (entries_with [Accepted] outs)"
proof -
  from run prof obtain st b where
    loop: "process_loop u payload
             \<lparr>bs_new_balance = balance p, bs_transactions = srv_transactions db,
              bs_processed_ids = [], bs_failed_ids = []\<rparr> = Inr st" and
    r: "r = \<lparr>error = None, processed_ids = bs_processed_ids st,
             failed_ids = bs_failed_ids st, new_balance = Some (bs_new_balance st)\<rparr>" and
    db': "db' = db\<lparr>profiles := (profiles db)(u \<mapsto> p\<lparr>balance := b, last_synced_at := Some now\<rparr>),
                   srv_transactions := bs_transactions st\<rparr>"
    by (auto simp: process_offline_batch_def split: sum.splits option.splits)
  from process_loop_refines [OF loop] r db'
  show ?thesis by (simp add: outs_def)
qed

text \<open>
  The instance on the example server (balance 50): a debit of 100 is rejected, a credit of
  100 is accepted, the same credit sent again is a replay, a debit of 30 is accepted and
  an unsigned credit of 500 is rejected; the call returns 50 + 100 - 30.
\<close>

theorem balance_conservation_witness:
  "\<exists>r db'. process_offline_batch 7 (Some ''alice'')
              [example_tx ''d1'' debit 100, example_tx ''c1'' credit 100,
               example_tx ''c1'' credit 100, example_tx ''d2'' debit 30,
               (example_tx ''u1'' credit 500)\<lparr>signature := None\<rparr>]
              example_server = Inr (r, db') \<and>
           new_balance r = Some 120 \<and>
           processed_ids r = [''c1'', ''c1'', ''d2''] \<and>
           failed_ids r = [(''d1'', ''Insufficient balance''), (''u1'', ''Missing signature'')] \<and>
           map row_offline_id (srv_transactions db') = [''c1'', ''d2'']"
proof -
  let ?B = "[example_tx ''d1'' debit 100, example_tx ''c1'' credit 100,
             example_tx ''c1'' credit 100, example_tx ''d2'' debit 30,
             (example_tx ''u1'' credit 500)\<lparr>signature := None\<rparr>]"
  let ?p = "\<lparr>balance = 50, last_synced_at = None\<rparr>"
  have prof: "profiles example_server ''alice'' = Some ?p"
    by (simp add: example_server_def)
  obtain r db' where
    run: "process_offline_batch 7 (Some ''alice'') ?B example_server = Inr (r, db')"
    by (simp add: process_offline_batch_def example_server_def example_tx_def process_tx_def
        insert_transaction_def existing_count_def numeric_12_2_numeral fits_bigint_def)
  have outs: "spec_outcomes (map row_offline_id (srv_transactions example_server))
                (balance ?p) ?B =
              [(example_tx ''d1'' debit 100, Insufficient_balance),
               (example_tx ''c1'' credit 100, Accepted),
               (example_tx ''c1'' credit 100, Replayed),
               (example_tx ''d2'' debit 30, Accepted),
               ((example_tx ''u1'' credit 500)\<lparr>signature := None\<rparr>, Missing_signature)]"
    by (simp add: example_server_def example_tx_def)
  have res: "new_balance r = Some 120 \<and>
        processed_ids r = [''c1'', ''c1'', ''d2''] \<and>
        failed_ids r = [(''d1'', ''Insufficient balance''), (''u1'', ''Missing signature'')] \<and>
        map row_offline_id (srv_transactions db') = [''c1'', ''d2'']"
    using balance_conservation [OF prof run]
    unfolding outs
    by (simp add: entries_with_def rejections_def example_server_def example_tx_def)
  show ?thesis
    by (rule exI [of _ r], rule exI [of _ db'], rule conjI [OF run res])
qed

subsection \<open>Replaying a batch\<close>

lemma process_tx_rejects_grow:
  "process_tx u tx st = Inr st' \<Longrightarrow> length (bs_failed_ids st) \<le> length (bs_failed_ids st')"
  by (cases rule: process_tx_cases) auto

lemma process_tx_rows_grow:
  "process_tx u tx st = Inr st' \<Longrightarrow>
   existing_count (bs_transactions st) i \<le> existing_count (bs_transactions st') i"
  by (cases rule: process_tx_cases) (auto simp: existing_count_def)

lemma process_loop_rejects_grow:
  "process_loop u txs st = Inr st' \<Longrightarrow> length (bs_failed_ids st) \<le> length (bs_failed_ids st')"
proof (induction txs arbitrary: st)
  case Nil
  then show ?case by simp
next
  case (Cons tx txs)
  from Cons.prems obtain st1 where
    step: "process_tx u tx st = Inr st1" and rest: "process_loop u txs st1 = Inr st'"
    by (auto split: sum.splits)
  from process_tx_rejects_grow [OF step] Cons.IH [OF rest] show ?case by simp
qed

lemma process_loop_rows_grow:
  "process_loop u txs st = Inr st' \<Longrightarrow>
   existing_count (bs_transactions st) i \<le> existing_count (bs_transactions st') i"
proof (induction txs arbitrary: st)
  case Nil
  then show ?case by simp
next
  case (Cons tx txs)
  from Cons.prems obtain st1 where
    step: "process_tx u tx st = Inr st1" and rest: "process_loop u txs st1 = Inr st'"
    by (auto split: sum.splits)
  from process_tx_rows_grow [OF step, of i] Cons.IH [OF rest] show ?case by simp
qed

text \<open>A run that rejects nothing leaves every entry of the batch in the table.\<close>

lemma process_loop_all_stored:
  "process_loop u txs st = Inr st' \<Longrightarrow>
   length (bs_failed_ids st') = length (bs_failed_ids st) \<Longrightarrow>
   tx \<in> set txs \<Longrightarrow> 0 < existing_count (bs_transactions st') (offline_id tx)"
proof (induction txs arbitrary: st)
  case Nil
  then show ?case by simp
next
  case (Cons t txs)
  from Cons.prems(1) obtain st1 where
    step: "process_tx u t st = Inr st1" and rest: "process_loop u txs st1 = Inr st'"
    by (auto split: sum.splits)
  from process_tx_rejects_grow [OF step] process_loop_rejects_grow [OF rest] Cons.prems(2)
  have same1: "length (bs_failed_ids st1) = length (bs_failed_ids st)"
    and same2: "length (bs_failed_ids st') = length (bs_failed_ids st1)"
    by simp_all
  show ?case
  proof (cases "tx = t")
    case True
    from step have "0 < existing_count (bs_transactions st1) (offline_id t)"
    proof (cases rule: process_tx_cases)
      case Replay
      then show ?thesis by simp
    next
      case (Rejected reason)
      with same1 show ?thesis by simp
    next
      case (Accepted row)
      then show ?thesis by (simp add: existing_count_def)
    qed
    with process_loop_rows_grow [OF rest, of "offline_id t"] True show ?thesis by simp
  next
    case False
    with Cons.prems(3) have "tx \<in> set txs" by simp
    from Cons.IH [OF rest same2 this] show ?thesis .
  qed
qed

text \<open>A batch whose entries are all in the table already is only reported.\<close>

lemma process_loop_fits:
  "process_loop u txs st = Inr st' \<Longrightarrow> tx \<in> set txs \<Longrightarrow> fits_bigint (timestamp tx)"
proof (induction txs arbitrary: st)
  case Nil
  then show ?case by simp
next
  case (Cons t txs)
  from Cons.prems(1) obtain st1 where
    step: "process_tx u t st = Inr st1" and rest: "process_loop u txs st1 = Inr st'"
    by (auto split: sum.splits)
  from Cons.prems(2) process_tx_fits [OF step] Cons.IH [OF rest] show ?case by auto
qed

text \<open>A stored entry is only reported: the running balance and the table stay.\<close>

lemma process_tx_replay:
  "0 < existing_count (bs_transactions st) (offline_id tx) \<Longrightarrow> fits_bigint (timestamp tx) \<Longrightarrow>
   process_tx u tx st = Inr (st\<lparr>bs_processed_ids := bs_processed_ids st @ [offline_id tx]\<rparr>)"
  by (simp add: process_tx_def)

lemma process_loop_replay:
  "(\<And>tx. tx \<in> set txs \<Longrightarrow> 0 < existing_count (bs_transactions st) (offline_id tx)) \<Longrightarrow>
   (\<And>tx. tx \<in> set txs \<Longrightarrow> fits_bigint (timestamp tx)) \<Longrightarrow>
   process_loop u txs st =
     Inr (st\<lparr>bs_processed_ids := bs_processed_ids st @ map offline_id txs\<rparr>)"
proof (induction txs arbitrary: st)
  case Nil
  then show ?case by simp
next
  case (Cons t txs)
  have step: "process_tx u t st = Inr (st\<lparr>bs_processed_ids := bs_processed_ids st @ [offline_id t]\<rparr>)"
    using Cons.prems(1) [of t] Cons.prems(2) [of t] by (simp add: process_tx_replay)
  have "process_loop u txs (st\<lparr>bs_processed_ids := bs_processed_ids st @ [offline_id t]\<rparr>) =
        Inr (st\<lparr>bs_processed_ids := bs_processed_ids st @ [offline_id t],
                bs_processed_ids := (bs_processed_ids st @ [offline_id t]) @ map offline_id txs\<rparr>)"
    using Cons.IH [of "st\<lparr>bs_processed_ids := bs_processed_ids st @ [offline_id t]\<rparr>"] Cons.prems
    by simp
  with step show ?case by simp
qed

text \<open>
  Claim C3, as the code has it. A second application of the same batch is a pure replay
  when the first one rejected nothing: it returns, adds no row to \<^verbatim>\<open>transactions\<close>,
  reports every entry of the batch in \<^verbatim>\<open>processed_ids\<close>, rejects nothing, and returns the
  balance that the first application persisted, which is the first one's \<^verbatim>\<open>new_balance\<close>
  whenever that value is stored unchanged in the \<^verbatim>\<open>NUMERIC(12, 2)\<close> column. In any pass
  of the loop, an entry whose \<^verbatim>\<open>offline_id\<close> is already in the table (and whose timestamp
  can be read) is recorded as processed, and running balance, table and rejections stay
  as they are.
\<close>

theorem replay_idempotent:
  assumes prof: "profiles db u = Some p"
    and first: "process_offline_batch now (Some u) payload db = Inr (r1, db1)"
    and none_rejected: "failed_ids r1 = []"
  shows "\<exists>r2 db2. process_offline_batch now' (Some u) payload db1 = Inr (r2, db2) \<and>
           srv_transactions db2 = srv_transactions db1 \<and>
           processed_ids r2 = map offline_id payload \<and>
           failed_ids r2 = [] \<and>
           new_balance r2 = map_option balance (profiles db1 u) \<and>
           new_balance r2 = map_option balance (profiles db2 u) \<and>
           (\<forall>b. new_balance r1 = Some b \<and> numeric_12_2 b = Some b \<longrightarrow>
                new_balance r2 = new_balance r1) \<and>
           (\<forall>tx st. 0 < existing_count (bs_transactions st) (offline_id tx) \<and>
                fits_bigint (timestamp tx) \<longrightarrow>
                process_tx u tx st =
                  Inr (st\<lparr>bs_processed_ids := bs_processed_ids st @ [offline_id tx]\<rparr>))"
proof -
  let ?start = "\<lparr>bs_new_balance = balance p, bs_transactions = srv_transactions db,
                 bs_processed_ids = [], bs_failed_ids = []\<rparr>"
  from first prof obtain st b where
    loop: "process_loop u payload ?start = Inr st" and
    b: "numeric_12_2 (bs_new_balance st) = Some b" and
    r1: "r1 = \<lparr>error = None, processed_ids = bs_processed_ids st,
              failed_ids = bs_failed_ids st, new_balance = Some (bs_new_balance st)\<rparr>" and
    db1: "db1 = db\<lparr>profiles := (profiles db)(u \<mapsto> p\<lparr>balance := b, last_synced_at := Some now\<rparr>),
                   srv_transactions := bs_transactions st\<rparr>"
    by (auto simp: process_offline_batch_def split: sum.splits option.splits)
  let ?p1 = "p\<lparr>balance := b, last_synced_at := Some now\<rparr>"
  let ?start1 = "\<lparr>bs_new_balance = b, bs_transactions = bs_transactions st,
                  bs_processed_ids = [], bs_failed_ids = []\<rparr>"
  from none_rejected r1 have "length (bs_failed_ids st) = length (bs_failed_ids ?start)"
    by simp
  from process_loop_all_stored [OF loop this]
  have stored: "\<And>tx. tx \<in> set payload \<Longrightarrow>
                  0 < existing_count (bs_transactions ?start1) (offline_id tx)"
    by simp
  have loop2: "process_loop u payload ?start1 =
                 Inr (?start1\<lparr>bs_processed_ids := bs_processed_ids ?start1 @ map offline_id payload\<rparr>)"
    using stored process_loop_fits [OF loop] by (rule process_loop_replay)
  have second: "process_offline_batch now' (Some u) payload db1 =
      Inr (\<lparr>error = None, processed_ids = map offline_id payload, failed_ids = [],
            new_balance = Some b\<rparr>,
           db1\<lparr>profiles := (profiles db1)(u \<mapsto> ?p1\<lparr>balance := b, last_synced_at := Some now'\<rparr>),
               srv_transactions := bs_transactions st\<rparr>)"
    using loop2 numeric_12_2_idem [OF b]
    by (simp add: process_offline_batch_def db1)
  show ?thesis
    unfolding second using b by (simp add: db1 r1 process_tx_replay)
qed

text \<open>
  The instance on the example server: a credit and a debit of 100, both accepted by the
  first application, are replayed by the second.
\<close>

theorem replay_idempotent_witness:
  "\<exists>r1 db1 r2 db2.
     process_offline_batch 1 (Some ''alice'')
       [example_tx ''c1'' credit 100, example_tx ''d1'' debit 100] example_server =
       Inr (r1, db1) \<and>
     failed_ids r1 = [] \<and>
     process_offline_batch 2 (Some ''alice'')
       [example_tx ''c1'' credit 100, example_tx ''d1'' debit 100] db1 = Inr (r2, db2) \<and>
     srv_transactions db2 = srv_transactions db1 \<and>
     processed_ids r2 = [''c1'', ''d1''] \<and>
     new_balance r1 = Some 50 \<and> new_balance r2 = Some 50"
proof -
  let ?B = "[example_tx ''c1'' credit 100, example_tx ''d1'' debit 100]"
  have prof: "profiles example_server ''alice'' = Some \<lparr>balance = 50, last_synced_at = None\<rparr>"
    by (simp add: example_server_def)
  obtain r1 db1 where
    run1: "process_offline_batch 1 (Some ''alice'') ?B example_server = Inr (r1, db1)" and
    f1: "failed_ids r1 = []" and nb1: "new_balance r1 = Some 50"
    by (simp add: process_offline_batch_def example_server_def example_tx_def process_tx_def
        insert_transaction_def existing_count_def numeric_12_2_numeral fits_bigint_def)
  from replay_idempotent [OF prof run1 f1, of 2] obtain r2 db2 where
    run2: "process_offline_batch 2 (Some ''alice'') ?B db1 = Inr (r2, db2)" and
    rows: "srv_transactions db2 = srv_transactions db1" and
    p2: "processed_ids r2 = map offline_id ?B" and
    same: "\<forall>b. new_balance r1 = Some b \<and> numeric_12_2 b = Some b \<longrightarrow>
               new_balance r2 = new_balance r1"
    by blast
  from same nb1 have nb2: "new_balance r2 = Some 50"
    by (simp add: numeric_12_2_numeral)
  from p2 have p2': "processed_ids r2 = [''c1'', ''d1'']"
    by (simp add: example_tx_def)
  from run1 f1 run2 rows p2' nb1 nb2 show ?thesis
    by (intro exI [of _ r1] exI [of _ db1] exI [of _ r2] exI [of _ db2] conjI)
qed

text \<open>
  The claim as stated fails on the batch [debit 100, credit 100] of claim C2: the first
  application rejects the debit and returns 150; the second application of the same batch
  finds the debit not stored, accepts it against the balance 150, adds a second row and
  returns 50.
\<close>

theorem replay_counterexample:
  "process_offline_batch 1 (Some ''alice'')
     [example_tx ''d1'' debit 100, example_tx ''c1'' credit 100] example_server =
     Inr (\<lparr>error = None, processed_ids = [''c1''],
           failed_ids = [(''d1'', ''Insufficient balance'')], new_balance = Some 150\<rparr>,
          example_server_at 150 1 [example_row ''c1'' credit 100]) \<and>
   process_offline_batch 2 (Some ''alice'')
     [example_tx ''d1'' debit 100, example_tx ''c1'' credit 100]
     (example_server_at 150 1 [example_row ''c1'' credit 100]) =
     Inr (\<lparr>error = None, processed_ids = [''d1'', ''c1''], failed_ids = [],
           new_balance = Some 50\<rparr>,
          example_server_at 50 2
            [example_row ''c1'' credit 100, example_row ''d1'' debit 100])"
  by (simp add: process_offline_batch_def example_server_def example_server_at_def
      example_row_def example_tx_def process_tx_def insert_transaction_def
      existing_count_def numeric_12_2_numeral fits_bigint_def)

text \<open>
  Why the replay theorem speaks of the stored balance: the function returns its variable
  \<^verbatim>\<open>new_balance\<close> but stores it rounded. A credit of 0.001 on the balance 50 returns
  50.001 and stores 50.00; replaying the batch returns 50.
\<close>

lemma replay_rounding_example:
  "process_offline_batch 1 (Some ''alice'') [example_tx ''m1'' credit (1 / 1000)]
     example_server =
     Inr (\<lparr>error = None, processed_ids = [''m1''], failed_ids = [],
           new_balance = Some (50001 / 1000)\<rparr>,
          example_server_at 50 1 [example_row ''m1'' credit 0]) \<and>
   process_offline_batch 2 (Some ''alice'') [example_tx ''m1'' credit (1 / 1000)]
     (example_server_at 50 1 [example_row ''m1'' credit 0]) =
     Inr (\<lparr>error = None, processed_ids = [''m1''], failed_ids = [],
           new_balance = Some 50\<rparr>,
          example_server_at 50 2 [example_row ''m1'' credit 0])"
  by (simp add: process_offline_batch_def example_server_def example_server_at_def
      example_row_def example_tx_def process_tx_def insert_transaction_def
      existing_count_def numeric_12_2_numeral fits_bigint_def numeric_12_2_examples)

subsection \<open>Amounts of any sign\<close>

lemma process_loop_append:
  "process_loop u (xs @ ys) st =
     (case process_loop u xs st of Inl e \<Rightarrow> Inl e | Inr st' \<Rightarrow> process_loop u ys st')"
  by (induction xs arbitrary: st) (simp_all split: sum.splits)

lemma process_loop_processed_grow:
  "process_loop u txs st = Inr st' \<Longrightarrow> set (bs_processed_ids st) \<subseteq> set (bs_processed_ids st')"
proof (induction txs arbitrary: st)
  case Nil
  then show ?case by simp
next
  case (Cons tx txs)
  from Cons.prems obtain st1 where
    step: "process_tx u tx st = Inr st1" and rest: "process_loop u txs st1 = Inr st'"
    by (auto split: sum.splits)
  from step have "set (bs_processed_ids st) \<subseteq> set (bs_processed_ids st1)"
    by (cases rule: process_tx_cases) auto
  with Cons.IH [OF rest] show ?case by blast
qed

text \<open>The function, for a user with a profile, in terms of its loop.\<close>

lemma process_offline_batch_profile:
  assumes "profiles db u = Some p"
  shows "process_offline_batch now (Some u) payload db =
     (case process_loop u payload
             \<lparr>bs_new_balance = balance p, bs_transactions = srv_transactions db,
              bs_processed_ids = [], bs_failed_ids = []\<rparr> of
        Inl e \<Rightarrow> Inl e
      | Inr st \<Rightarrow>
          (case numeric_12_2 (bs_new_balance st) of
             None \<Rightarrow> Inl Numeric_field_overflow
           | Some b \<Rightarrow>
               Inr (\<lparr>error = None, processed_ids = bs_processed_ids st,
                     failed_ids = bs_failed_ids st,
                     new_balance = Some (bs_new_balance st)\<rparr>,
                    db\<lparr>profiles := (profiles db)(u \<mapsto>
                           p\<lparr>balance := b, last_synced_at := Some now\<rparr>),
                       srv_transactions := bs_transactions st\<rparr>)))"
  using assms by (simp add: process_offline_batch_def)

text \<open>
  Claim C9, as the code has it. The function has no positivity check. Let the loop reach,
  after the entries \<open>pre\<close>, an entry with an unseen \<^verbatim>\<open>offline_id\<close>, a non-empty signature and
  a timestamp that can be read, in the state \<open>st\<close>.

  \<^item> A credit of any sign, and a debit whose amount does not exceed the running balance,
    is applied if its amount fits the \<^verbatim>\<open>NUMERIC(12, 2)\<close> column: the amount is added to
    (credit) or subtracted from (debit) the running balance, the entry is stored and
    recorded as processed. If the entry is the last of the batch, the call returns the
    new running balance as \<^verbatim>\<open>new_balance\<close> and stores it, rounded to two decimals, as the
    authoritative balance, provided it fits the column; if it does not fit, the call raises.
    If more entries follow and the call returns, the entry is in \<^verbatim>\<open>processed_ids\<close> and in
    the table. If the amount does not fit the column, the call raises.
  \<^item> So a debit with a zero or negative amount is applied whenever the running balance is
    not below it, in particular whenever the running balance is not negative, and a
    negative debit raises the running balance.
  \<^item> A debit whose amount exceeds the running balance, which for a zero or negative
    amount needs a negative running balance, is rejected with "Insufficient balance".
\<close>

theorem no_positivity_check:
  fixes db :: server_db and u :: string and p :: profile and tx :: offline_transaction
    and st :: batch_state and g :: string and now :: int
  defines "nb \<equiv> (if tx_type tx = debit then bs_new_balance st - amount tx
                  else bs_new_balance st + amount tx)"
    and "row \<equiv> \<lambda>a. \<lparr>row_user_id = u, row_amount = a, row_type = tx_type tx,
                    row_description = (case description tx of None \<Rightarrow> [] | Some d \<Rightarrow> d),
                    row_status = ''synced'', row_offline_id = offline_id tx,
                    row_signature = g\<rparr>"
  assumes prof: "profiles db u = Some p"
    and reach: "process_loop u pre
                  \<lparr>bs_new_balance = balance p, bs_transactions = srv_transactions db,
                   bs_processed_ids = [], bs_failed_ids = []\<rparr> = Inr st"
    and fresh: "existing_count (bs_transactions st) (offline_id tx) = 0"
    and signed: "signature tx = Some g" "g \<noteq> []"
    and ts: "fits_bigint (timestamp tx)"
  shows
    "(tx_type tx = credit \<or> amount tx \<le> bs_new_balance st \<longrightarrow>
        (\<forall>a. numeric_12_2 (amount tx) = Some a \<longrightarrow>
           process_tx u tx st =
             Inr (st\<lparr>bs_new_balance := nb,
                     bs_transactions := bs_transactions st @ [row a],
                     bs_processed_ids := bs_processed_ids st @ [offline_id tx]\<rparr>) \<and>
           (\<forall>b. numeric_12_2 nb = Some b \<longrightarrow>
              process_offline_batch now (Some u) (pre @ [tx]) db =
                Inr (\<lparr>error = None,
                      processed_ids = bs_processed_ids st @ [offline_id tx],
                      failed_ids = bs_failed_ids st, new_balance = Some nb\<rparr>,
                     db\<lparr>profiles := (profiles db)(u \<mapsto>
                            p\<lparr>balance := b, last_synced_at := Some now\<rparr>),
                        srv_transactions := bs_transactions st @ [row a]\<rparr>)) \<and>
           (numeric_12_2 nb = None \<longrightarrow>
              process_offline_batch now (Some u) (pre @ [tx]) db =
                Inl Numeric_field_overflow)) \<and>
        (\<forall>post r db'.
           process_offline_batch now (Some u) (pre @ tx # post) db = Inr (r, db') \<longrightarrow>
           offline_id tx \<in> set (processed_ids r) \<and>
           offline_id tx \<in> set (map row_offline_id (srv_transactions db'))) \<and>
        (numeric_12_2 (amount tx) = None \<longrightarrow>
           (\<forall>post. process_offline_batch now (Some u) (pre @ tx # post) db =
                     Inl Numeric_field_overflow))) \<and>
     (tx_type tx = debit \<and> amount tx \<le> 0 \<and> 0 \<le> bs_new_balance st \<longrightarrow>
        amount tx \<le> bs_new_balance st \<and> bs_new_balance st \<le> nb) \<and>
     (tx_type tx = debit \<and> amount tx < 0 \<longrightarrow> bs_new_balance st < nb) \<and>
     (tx_type tx = debit \<and> bs_new_balance st < amount tx \<longrightarrow>
        process_tx u tx st =
          Inr (st\<lparr>bs_failed_ids :=
                     bs_failed_ids st @ [(offline_id tx, ''Insufficient balance'')]\<rparr>) \<and>
        (\<forall>b. numeric_12_2 (bs_new_balance st) = Some b \<longrightarrow>
           process_offline_batch now (Some u) (pre @ [tx]) db =
             Inr (\<lparr>error = None, processed_ids = bs_processed_ids st,
                   failed_ids =
                     bs_failed_ids st @ [(offline_id tx, ''Insufficient balance'')],
                   new_balance = Some (bs_new_balance st)\<rparr>,
                  db\<lparr>profiles := (profiles db)(u \<mapsto>
                         p\<lparr>balance := b, last_synced_at := Some now\<rparr>),
                     srv_transactions := bs_transactions st\<rparr>)))"
proof -
  note pob = process_offline_batch_profile [OF prof]
  have applied: "process_tx u tx st =
             Inr (st\<lparr>bs_new_balance := nb,
                     bs_transactions := bs_transactions st @ [row a],
                     bs_processed_ids := bs_processed_ids st @ [offline_id tx]\<rparr>)"
    if "tx_type tx = credit \<or> amount tx \<le> bs_new_balance st"
      and "numeric_12_2 (amount tx) = Some a" for a
    using that fresh signed ts
    by (auto simp: process_tx_def insert_transaction_def nb_def row_def)
  have raised: "process_tx u tx st = Inl Numeric_field_overflow"
    if "tx_type tx = credit \<or> amount tx \<le> bs_new_balance st"
      and "numeric_12_2 (amount tx) = None"
    using that fresh signed ts
    by (auto simp: process_tx_def insert_transaction_def)
  have rejected: "process_tx u tx st =
          Inr (st\<lparr>bs_failed_ids :=
                     bs_failed_ids st @ [(offline_id tx, ''Insufficient balance'')]\<rparr>)"
    if "tx_type tx = debit \<and> bs_new_balance st < amount tx"
    using that fresh signed ts by (simp add: process_tx_def)
  have last_ok: "process_offline_batch now (Some u) (pre @ [tx]) db =
                Inr (\<lparr>error = None,
                      processed_ids = bs_processed_ids st @ [offline_id tx],
                      failed_ids = bs_failed_ids st, new_balance = Some nb\<rparr>,
                     db\<lparr>profiles := (profiles db)(u \<mapsto>
                            p\<lparr>balance := b, last_synced_at := Some now\<rparr>),
                        srv_transactions := bs_transactions st @ [row a]\<rparr>)"
    if "tx_type tx = credit \<or> amount tx \<le> bs_new_balance st"
      and "numeric_12_2 (amount tx) = Some a" and "numeric_12_2 nb = Some b" for a b
    unfolding pob process_loop_append reach using applied [OF that(1,2)] that(3) by simp
  have last_overflow: "process_offline_batch now (Some u) (pre @ [tx]) db =
                Inl Numeric_field_overflow"
    if "tx_type tx = credit \<or> amount tx \<le> bs_new_balance st"
      and "numeric_12_2 (amount tx) = Some a" and "numeric_12_2 nb = None" for a
    unfolding pob process_loop_append reach using applied [OF that(1,2)] that(3) by simp
  have amount_overflow: "process_offline_batch now (Some u) (pre @ tx # post) db =
                Inl Numeric_field_overflow"
    if "tx_type tx = credit \<or> amount tx \<le> bs_new_balance st"
      and "numeric_12_2 (amount tx) = None" for post
    unfolding pob process_loop_append reach using raised [OF that] by simp
  have reported: "offline_id tx \<in> set (processed_ids r) \<and>
           offline_id tx \<in> set (map row_offline_id (srv_transactions db'))"
    if adm: "tx_type tx = credit \<or> amount tx \<le> bs_new_balance st"
      and run: "process_offline_batch now (Some u) (pre @ tx # post) db = Inr (r, db')"
    for post r db'
  proof -
    from run obtain stf where
      loop: "process_loop u (pre @ tx # post)
               \<lparr>bs_new_balance = balance p, bs_transactions = srv_transactions db,
                bs_processed_ids = [], bs_failed_ids = []\<rparr> = Inr stf" and
      r: "processed_ids r = bs_processed_ids stf" and
      db': "srv_transactions db' = bs_transactions stf"
      unfolding pob by (auto split: sum.splits option.splits)
    from loop obtain st1 where
      step: "process_tx u tx st = Inr st1" and rest: "process_loop u post st1 = Inr stf"
      unfolding process_loop_append reach by (auto split: sum.splits)
    from step adm obtain a where "numeric_12_2 (amount tx) = Some a"
      using raised by (cases "numeric_12_2 (amount tx)") auto
    from applied [OF adm this] step have
      p1: "offline_id tx \<in> set (bs_processed_ids st1)" and
      e1: "0 < existing_count (bs_transactions st1) (offline_id tx)"
      by (auto simp: existing_count_def row_def)
    from p1 process_loop_processed_grow [OF rest] have "offline_id tx \<in> set (bs_processed_ids stf)"
      by blast
    moreover from e1 process_loop_rows_grow [OF rest, of "offline_id tx"]
    have "0 < existing_count (bs_transactions stf) (offline_id tx)" by simp
    ultimately show ?thesis
      by (simp add: r db' existing_count_pos_iff)
  qed
  have last_rejected: "process_offline_batch now (Some u) (pre @ [tx]) db =
             Inr (\<lparr>error = None, processed_ids = bs_processed_ids st,
                   failed_ids =
                     bs_failed_ids st @ [(offline_id tx, ''Insufficient balance'')],
                   new_balance = Some (bs_new_balance st)\<rparr>,
                  db\<lparr>profiles := (profiles db)(u \<mapsto>
                         p\<lparr>balance := b, last_synced_at := Some now\<rparr>),
                     srv_transactions := bs_transactions st\<rparr>)"
    if "tx_type tx = debit \<and> bs_new_balance st < amount tx"
      and "numeric_12_2 (bs_new_balance st) = Some b" for b
    unfolding pob process_loop_append reach using rejected [OF that(1)] that(2) by simp
  have arith1: "tx_type tx = debit \<and> amount tx \<le> 0 \<and> 0 \<le> bs_new_balance st \<longrightarrow>
        amount tx \<le> bs_new_balance st \<and> bs_new_balance st \<le> nb"
    by (simp add: nb_def)
  have arith2: "tx_type tx = debit \<and> amount tx < 0 \<longrightarrow> bs_new_balance st < nb"
    by (simp add: nb_def)
  from applied last_ok last_overflow amount_overflow reported rejected last_rejected
    arith1 arith2
  show ?thesis by blast
qed

text \<open>
  The instance: on the example server (balance 50) the batch of one signed debit of -20 is
  accepted, and the call returns and stores the balance 70.
\<close>

theorem no_positivity_check_witness:
  "process_offline_batch 1 (Some ''alice'') [example_tx ''n1'' debit (- 20)] example_server =
     Inr (\<lparr>error = None, processed_ids = [''n1''], failed_ids = [],
           new_balance = Some 70\<rparr>,
          example_server_at 70 1 [example_row ''n1'' debit (- 20)])"
proof -
  let ?p = "\<lparr>balance = 50, last_synced_at = None\<rparr>"
  let ?st = "\<lparr>bs_new_balance = balance ?p, bs_transactions = srv_transactions example_server,
              bs_processed_ids = [], bs_failed_ids = []\<rparr>"
  let ?tx = "example_tx ''n1'' debit (- 20)"
  have prof: "profiles example_server ''alice'' = Some ?p"
    by (simp add: example_server_def)
  have reach: "process_loop ''alice'' [] ?st = Inr ?st"
    by simp
  have fresh: "existing_count (bs_transactions ?st) (offline_id ?tx) = 0"
    by (simp add: existing_count_def example_server_def)
  have signed: "signature ?tx = Some ''sig''" "''sig'' \<noteq> []"
    by (simp_all add: example_tx_def)
  have ts: "fits_bigint (timestamp ?tx)"
    by (simp add: example_tx_def fits_bigint_def)
  have adm: "tx_type ?tx = credit \<or> amount ?tx \<le> bs_new_balance ?st"
    by (simp add: example_tx_def)
  have fits: "numeric_12_2 (amount ?tx) = Some (- 20)"
    by (simp add: example_tx_def numeric_12_2_neg_numeral)
  have fits_b: "numeric_12_2 (if tx_type ?tx = debit then bs_new_balance ?st - amount ?tx
                  else bs_new_balance ?st + amount ?tx) = Some 70"
    by (simp add: example_tx_def numeric_12_2_numeral)
  from no_positivity_check [OF prof reach fresh signed ts, of 1] adm fits fits_b
  have "process_offline_batch 1 (Some ''alice'') ([] @ [?tx]) example_server =
          Inr (\<lparr>error = None,
                processed_ids = bs_processed_ids ?st @ [offline_id ?tx],
                failed_ids = bs_failed_ids ?st,
                new_balance = Some (if tx_type ?tx = debit then bs_new_balance ?st - amount ?tx
                  else bs_new_balance ?st + amount ?tx)\<rparr>,
               example_server\<lparr>profiles := (profiles example_server)(''alice'' \<mapsto>
                      ?p\<lparr>balance := 70, last_synced_at := Some 1\<rparr>),
                  srv_transactions := bs_transactions ?st @
                    [\<lparr>row_user_id = ''alice'', row_amount = - 20, row_type = tx_type ?tx,
                      row_description = (case description ?tx of None \<Rightarrow> [] | Some d \<Rightarrow> d),
                      row_status = ''synced'', row_offline_id = offline_id ?tx,
                      row_signature = ''sig''\<rparr>]\<rparr>)"
    by blast
  then show ?thesis
    by (simp add: example_server_def example_server_at_def example_row_def example_tx_def)
qed

text \<open>
  The claim as stated fails when the running balance is negative: on the example server
  (balance 50) the signed credit of -100 is accepted and leaves the running balance at
  -50, and the signed debit of amount 0 that follows is rejected, since -50 < 0.
\<close>

theorem no_positivity_check_counterexample:
  "process_offline_batch 1 (Some ''alice'')
     [example_tx ''n1'' credit (- 100), example_tx ''z1'' debit 0] example_server =
     Inr (\<lparr>error = None, processed_ids = [''n1''],
           failed_ids = [(''z1'', ''Insufficient balance'')], new_balance = Some (- 50)\<rparr>,
          example_server_at (- 50) 1 [example_row ''n1'' credit (- 100)])"
  by (simp add: process_offline_batch_def example_server_def example_server_at_def
      example_row_def example_tx_def process_tx_def insert_transaction_def
      existing_count_def numeric_12_2_numeral numeric_12_2_neg_numeral fits_bigint_def)

section \<open>Properties of the local store and the sync engine\<close>

subsection \<open>Retention\<close>

text \<open>
  Claim C8. The retention purge, in both its forms and with the horizon defaulting to 30
  days, deletes exactly the rows of the user whose \<^verbatim>\<open>sync_status\<close> is \<open>synced\<close> and whose
  \<^verbatim>\<open>timestamp\<close> is below the cutoff \<^verbatim>\<open>now - daysOld * 24 * 60 * 60 * 1000\<close>. Every other
  row (pending, syncing, failed or conflict; synced but not older than the cutoff; of
  another user) stays in the table, unchanged and in its place, and the wallet table is not
  touched. \<^verbatim>\<open>cleanupOldTransactions\<close> returns the number of rows deleted.
\<close>

theorem retention_purge:
  fixes db :: local_db and userId :: string and daysOld :: "int option" and now :: int
  defines "old \<equiv> \<lambda>tx. user_id tx = userId \<and> sync_status tx = synced \<and>
                       timestamp tx < cutoffTime daysOld now"
  defines "db' \<equiv> clearOldSyncedTransactions userId daysOld now db"
  shows "transactions db' = filter (\<lambda>tx. \<not> old tx) (transactions db) \<and>
         wallet db' = wallet db \<and>
         cleanupOldTransactions userId daysOld now db =
           (length (filter old (transactions db)), db') \<and>
         (\<forall>tx \<in> set (transactions db).
            sync_status tx \<in> {pending, syncing, failed, conflict} \<or>
            cutoffTime daysOld now \<le> timestamp tx \<or> user_id tx \<noteq> userId
            \<longrightarrow> tx \<in> set (transactions db')) \<and>
         (\<forall>tx \<in> set (transactions db). old tx \<longrightarrow> tx \<notin> set (transactions db')) \<and>
         cutoffTime None now = now - 2592000000 \<and>
         (\<forall>d. cutoffTime (Some d) now = now - d * 86400000)"
  by (auto simp: db'_def old_def clearOldSyncedTransactions_def cleanupOldTransactions_def
      collection_delete_def cutoffTime_def)

text \<open>
  The instance: at time 5000000000 the default cutoff is 2408000000. Of five rows with
  timestamp 1000 (synced, pending, conflict, failed, and synced of another user) and one
  synced row with timestamp 4000000000, only the first is deleted.
\<close>

theorem retention_purge_witness:
  "transactions
     (clearOldSyncedTransactions ''alice'' None 5000000000
        (example_local
           [(example_tx ''s1'' debit 10)\<lparr>sync_status := synced\<rparr>,
            example_tx ''p1'' debit 10,
            (example_tx ''k1'' debit 10)\<lparr>sync_status := conflict\<rparr>,
            (example_tx ''f1'' debit 10)\<lparr>sync_status := failed\<rparr>,
            (example_tx ''b1'' debit 10)\<lparr>sync_status := synced, user_id := ''bob''\<rparr>,
            (example_tx ''s2'' debit 10)\<lparr>sync_status := synced, timestamp := 4000000000\<rparr>])) =
     [example_tx ''p1'' debit 10,
      (example_tx ''k1'' debit 10)\<lparr>sync_status := conflict\<rparr>,
      (example_tx ''f1'' debit 10)\<lparr>sync_status := failed\<rparr>,
      (example_tx ''b1'' debit 10)\<lparr>sync_status := synced, user_id := ''bob''\<rparr>,
      (example_tx ''s2'' debit 10)\<lparr>sync_status := synced, timestamp := 4000000000\<rparr>]"
proof -
  let ?db = "example_local
           [(example_tx ''s1'' debit 10)\<lparr>sync_status := synced\<rparr>,
            example_tx ''p1'' debit 10,
            (example_tx ''k1'' debit 10)\<lparr>sync_status := conflict\<rparr>,
            (example_tx ''f1'' debit 10)\<lparr>sync_status := failed\<rparr>,
            (example_tx ''b1'' debit 10)\<lparr>sync_status := synced, user_id := ''bob''\<rparr>,
            (example_tx ''s2'' debit 10)\<lparr>sync_status := synced, timestamp := 4000000000\<rparr>]"
  from retention_purge [of "''alice''" None 5000000000 ?db]
  have "transactions (clearOldSyncedTransactions ''alice'' None 5000000000 ?db) =
        filter (\<lambda>tx. \<not> (user_id tx = ''alice'' \<and> sync_status tx = synced \<and>
                          timestamp tx < 5000000000 - 2592000000)) (transactions ?db)"
    by simp
  then show ?thesis
    by (simp add: example_local_def example_tx_def)
qed

subsection \<open>What a sync cycle does to the local store\<close>

lemma sync_applies_response:
  assumes "online" "configured" "getPendingTransactions userId db \<noteq> []"
    and "rpc (getPendingTransactions userId db) = Inr response"
  shows "syncOfflineTransactions online configured rpc now userId db =
           (Some response,
            (case new_balance response of
               None \<Rightarrow> (\<lambda>d. d)
             | Some nb \<Rightarrow>
                 updateWalletState
                   \<lparr>wallet_id = userId, cached_balance = nb, shadow_balance = nb,
                    last_updated = now, pending_debits = None, pending_credits = None,
                    last_sync_success = None\<rparr>)
              (if processed_ids response = [] then db
               else markTransactionsSynced (processed_ids response) db))"
  using assms
  by (simp add: syncOfflineTransactions_def Let_def split: option.splits)

lemma sync_transactions:
  assumes "online" "configured" "getPendingTransactions userId db \<noteq> []"
    and "rpc (getPendingTransactions userId db) = Inr response"
  shows "transactions (snd (syncOfflineTransactions online configured rpc now userId db)) =
           map (\<lambda>tx. if offline_id tx \<in> set (processed_ids response)
                      then tx\<lparr>sync_status := synced\<rparr> else tx) (transactions db)"
proof (cases "processed_ids response = []")
  case True
  then show ?thesis
    unfolding sync_applies_response [where online = online and configured = configured and rpc = rpc and userId = userId and db = db, OF assms]
    by (simp add: updateWalletState_def split: option.splits)
next
  case False
  then show ?thesis
    unfolding sync_applies_response [where online = online and configured = configured and rpc = rpc and userId = userId and db = db, OF assms]
    by (simp add: updateWalletState_def markTransactionsSynced_def collection_modify_def
        split: option.splits)
qed

lemma sync_wallet:
  assumes "online" "configured" "getPendingTransactions userId db \<noteq> []"
    and "rpc (getPendingTransactions userId db) = Inr response"
    and "new_balance response = Some nb"
  shows "wallet (snd (syncOfflineTransactions online configured rpc now userId db)) =
           (wallet db)(userId \<mapsto>
              \<lparr>wallet_id = userId, cached_balance = nb, shadow_balance = nb,
               last_updated = now, pending_debits = None, pending_credits = None,
               last_sync_success = None\<rparr>)"
  unfolding sync_applies_response [where online = online and configured = configured and rpc = rpc
      and userId = userId and db = db, OF assms(1-4)]
  using assms(5)
  by (simp add: updateWalletState_def markTransactionsSynced_def)

text \<open>
  Claim C10. When the remote call of a sync cycle answers with a response that carries a
  \<^verbatim>\<open>new_balance\<close>, the user's wallet record is replaced by one holding only \<^verbatim>\<open>id\<close>,
  \<^verbatim>\<open>cached_balance\<close>, \<^verbatim>\<open>shadow_balance\<close> (both the new balance) and \<^verbatim>\<open>last_updated\<close>:
  \<^verbatim>\<open>pending_debits\<close>, \<^verbatim>\<open>pending_credits\<close> and \<^verbatim>\<open>last_sync_success\<close> are gone, so
  \<^verbatim>\<open>checkWalletStaleness\<close> on the resulting store returns true at any time.
\<close>

theorem sync_erases_wallet_fields:
  assumes "online" "configured" "getPendingTransactions userId db \<noteq> []"
    and "rpc (getPendingTransactions userId db) = Inr response"
    and "new_balance response = Some nb"
  shows "wallet (snd (syncOfflineTransactions online configured rpc now userId db)) userId =
           Some \<lparr>wallet_id = userId, cached_balance = nb, shadow_balance = nb,
                 last_updated = now, pending_debits = None, pending_credits = None,
                 last_sync_success = None\<rparr> \<and>
         checkWalletStaleness userId later
           (snd (syncOfflineTransactions online configured rpc now userId db))"
  unfolding checkWalletStaleness_def getWalletState_def
    sync_wallet [where online = online and configured = configured and rpc = rpc
      and userId = userId and db = db, OF assms]
  by simp

text \<open>
  The instance: the example wallet was synced at time 5 and is not stale at time 10; the
  server accepts the pending debit of 30 and answers with the balance 20; after the cycle
  the wallet is reported stale at time 10.
\<close>

theorem sync_erases_wallet_fields_witness:
  "\<not> checkWalletStaleness ''alice'' 10 (example_local [example_tx ''p1'' debit 30]) \<and>
   wallet (snd (syncOfflineTransactions True True
                  (supabase_rpc 7 (Some ''alice'') example_server) 9 ''alice''
                  (example_local [example_tx ''p1'' debit 30]))) ''alice'' =
     Some \<lparr>wallet_id = ''alice'', cached_balance = 20, shadow_balance = 20,
           last_updated = 9, pending_debits = None, pending_credits = None,
           last_sync_success = None\<rparr> \<and>
   checkWalletStaleness ''alice'' 10
     (snd (syncOfflineTransactions True True
             (supabase_rpc 7 (Some ''alice'') example_server) 9 ''alice''
             (example_local [example_tx ''p1'' debit 30])))"
proof -
  let ?db = "example_local [example_tx ''p1'' debit 30]"
  let ?r = "\<lparr>error = None, processed_ids = [''p1''], failed_ids = [],
             new_balance = Some 20\<rparr>"
  have pend: "getPendingTransactions ''alice'' ?db = [example_tx ''p1'' debit 30]"
    by (simp add: getPendingTransactions_def example_local_def example_tx_def)
  then have ne: "getPendingTransactions ''alice'' ?db \<noteq> []" by simp
  have rpc: "supabase_rpc 7 (Some ''alice'') example_server
               (getPendingTransactions ''alice'' ?db) = Inr ?r"
    unfolding pend
    by (simp add: supabase_rpc_def process_offline_batch_def example_server_def
        example_tx_def process_tx_def insert_transaction_def existing_count_def
        numeric_12_2_numeral fits_bigint_def)
  have nb: "new_balance ?r = Some 20" by simp
  have fresh: "\<not> checkWalletStaleness ''alice'' 10 ?db"
    by (simp add: checkWalletStaleness_def getWalletState_def example_local_def
        example_wallet_def)
  from sync_erases_wallet_fields [where online = True and configured = True
      and rpc = "supabase_rpc 7 (Some ''alice'') example_server" and userId = "''alice''"
      and db = ?db and now = 9 and later = 10, OF TrueI TrueI ne rpc nb] fresh
  show ?thesis by simp
qed

subsection \<open>Recomputing the wallet\<close>

text \<open>Small whole numbers are doubles: rounding leaves them as they are.\<close>

lemma round_double_examples:
  "round_double 5 = Some 5" "round_double 20 = Some 20" "round_double 30 = Some 30"
  "round_double 50 = Some 50" "round_double 450 = Some 450" "round_double 480 = Some 480"
  "round_double 485 = Some 485"
  by (simp_all add: round_double_def binade_def exponent_up.simps pow2_def
      round_half_even_def Let_def)

text \<open>
  The doubles written \<^verbatim>\<open>0.1\<close> and \<^verbatim>\<open>0.2\<close> are 3602879701896397 / 2^55 and
  3602879701896397 / 2^54; their sum in JavaScript is 5404319552844596 / 2^54, written
  \<^verbatim>\<open>0.30000000000000004\<close>, and not the double nearest to 3/10.
\<close>

lemma js_add_tenths:
  "js_add (3602879701896397 / 36028797018963968) (3602879701896397 / 18014398509481984) =
     Some (5404319552844596 / 18014398509481984)"
proof -
  let ?x = "10808639105689191 / 36028797018963968 :: rat"
  have b: "binade \<bar>?x\<bar> = - 2"
    by (simp add: binade_def exponent_down.simps pow2_def)
  have f: "\<lfloor>10808639105689191 / 2 :: rat\<rfloor> = 5404319552844595"
    by (rule floor_unique) simp_all
  have q: "\<bar>?x\<bar> / pow2 (- 2 - 52) = 10808639105689191 / 2"
    by (simp add: pow2_def)
  have r: "round_half_even (10808639105689191 / 2) = 5404319552844596"
    unfolding round_half_even_def Let_def f by simp
  have "round_double ?x = Some (5404319552844596 / 18014398509481984)"
    unfolding round_double_def Let_def b q r by (simp add: pow2_def)
  then show ?thesis by (simp add: js_add_def)
qed

text \<open>
  Claim C6, as the code has it. \<^verbatim>\<open>updateWalletPendingAmounts\<close> takes its aggregates from
  \<^verbatim>\<open>getPendingTransactions\<close>, which selects the user's rows in \<open>pending\<close> state only; rows
  in \<open>syncing\<close> or \<open>failed\<close> state are not counted. When the user has a wallet, it stores
  \<^verbatim>\<open>pending_debits\<close> and \<^verbatim>\<open>pending_credits\<close> as the JavaScript sums, from 0 and in table
  order, of the amounts of the user's pending debits and pending credits, and
  \<^verbatim>\<open>shadow_balance\<close> as \<^verbatim>\<open>cached_balance - pending_debits + pending_credits\<close> in
  JavaScript arithmetic: each sum and difference is rounded to the nearest double. (The
  statement covers the runs in which these numbers are finite.) The transactions are not
  changed. Without a wallet it changes nothing.
\<close>

theorem wallet_recomputation:
  fixes db :: local_db and userId :: string
  defines "debits \<equiv> filter (\<lambda>tx. user_id tx = userId \<and> sync_status tx = pending \<and>
                                 tx_type tx = debit) (transactions db)"
    and "credits \<equiv> filter (\<lambda>tx. user_id tx = userId \<and> sync_status tx = pending \<and>
                                 tx_type tx = credit) (transactions db)"
  shows "(wallet db userId = None \<longrightarrow> updateWalletPendingAmounts userId db = Some db) \<and>
         (\<forall>w D C x s.
            wallet db userId = Some w \<and> wallet_id w = userId \<and>
            js_sum 0 debits = Some D \<and> js_sum 0 credits = Some C \<and>
            js_sub (cached_balance w) D = Some x \<and> js_add x C = Some s \<longrightarrow>
            updateWalletPendingAmounts userId db =
              Some (db\<lparr>wallet := (wallet db)(userId \<mapsto>
                      w\<lparr>pending_debits := Some D, pending_credits := Some C,
                        shadow_balance := s\<rparr>)\<rparr>)) \<and>
         (\<forall>w db'.
            wallet db userId = Some w \<and> wallet_id w = userId \<and>
            updateWalletPendingAmounts userId db = Some db' \<longrightarrow>
            transactions db' = transactions db \<and>
            (\<exists>D C x s.
               js_sum 0 debits = Some D \<and> js_sum 0 credits = Some C \<and>
               js_sub (cached_balance w) D = Some x \<and> js_add x C = Some s \<and>
               wallet db' userId =
                 Some (w\<lparr>pending_debits := Some D, pending_credits := Some C,
                         shadow_balance := s\<rparr>)))"
proof -
  have D: "filter (\<lambda>tx. tx_type tx = debit) (getPendingTransactions userId db) = debits"
    unfolding debits_def getPendingTransactions_def
    by (simp add: conj_commute conj_left_commute cong: conj_cong)
  have C: "filter (\<lambda>tx. tx_type tx = credit) (getPendingTransactions userId db) = credits"
    unfolding credits_def getPendingTransactions_def
    by (simp add: conj_commute conj_left_commute cong: conj_cong)
  show ?thesis
    unfolding updateWalletPendingAmounts_def Let_def D C
    by (auto simp: getWalletState_def updateWalletState_def split: option.splits)
qed

text \<open>
  The instance: with a cached balance of 500, a pending debit of 20, a pending credit of 5
  and a synced debit of 7, the shadow balance becomes 485.
\<close>

theorem wallet_recomputation_witness:
  "updateWalletPendingAmounts ''alice''
     (example_local
        [example_tx ''p1'' debit 20, example_tx ''p2'' credit 5,
         (example_tx ''s1'' debit 7)\<lparr>sync_status := synced\<rparr>]) =
     Some \<lparr>transactions =
             [example_tx ''p1'' debit 20, example_tx ''p2'' credit 5,
              (example_tx ''s1'' debit 7)\<lparr>sync_status := synced\<rparr>],
           wallet = [''alice'' \<mapsto>
             example_wallet\<lparr>pending_debits := Some 20, pending_credits := Some 5,
                            shadow_balance := 485\<rparr>]\<rparr>"
proof -
  let ?db = "example_local
                [example_tx ''p1'' debit 20, example_tx ''p2'' credit 5,
                 (example_tx ''s1'' debit 7)\<lparr>sync_status := synced\<rparr>]"
  have pre: "wallet ?db ''alice'' = Some example_wallet \<and> wallet_id example_wallet = ''alice'' \<and>
       js_sum 0 (filter (\<lambda>tx. user_id tx = ''alice'' \<and> sync_status tx = pending \<and>
                              tx_type tx = debit) (transactions ?db)) = Some 20 \<and>
       js_sum 0 (filter (\<lambda>tx. user_id tx = ''alice'' \<and> sync_status tx = pending \<and>
                              tx_type tx = credit) (transactions ?db)) = Some 5 \<and>
       js_sub (cached_balance example_wallet) 20 = Some 480 \<and> js_add 480 5 = Some 485"
    by (simp add: example_local_def example_wallet_def example_tx_def js_add_def js_sub_def
        round_double_examples)
  from wallet_recomputation [of ?db "''alice''"] pre
  have "updateWalletPendingAmounts ''alice'' ?db =
          Some (?db\<lparr>wallet := (wallet ?db)(''alice'' \<mapsto>
                  example_wallet\<lparr>pending_debits := Some 20, pending_credits := Some 5,
                                 shadow_balance := 485\<rparr>)\<rparr>)"
    by blast
  then show ?thesis
    by (simp add: example_local_def)
qed

text \<open>
  The claim as stated counts the rows in \<open>syncing\<close> and \<open>failed\<close> state too. With a cached
  balance of 500, a failed debit of 30 and a pending debit of 20, the recomputed
  \<^verbatim>\<open>pending_debits\<close> is 20 and the shadow balance 480; over the pending, syncing and
  failed rows the debits sum to 50 and the shadow balance would be 450.
\<close>

theorem wallet_recomputation_counterexample:
  "updateWalletPendingAmounts ''alice''
     (example_local
        [(example_tx ''f1'' debit 30)\<lparr>sync_status := failed\<rparr>,
         example_tx ''p1'' debit 20]) =
     Some \<lparr>transactions =
             [(example_tx ''f1'' debit 30)\<lparr>sync_status := failed\<rparr>,
              example_tx ''p1'' debit 20],
           wallet = [''alice'' \<mapsto>
             example_wallet\<lparr>pending_debits := Some 20, pending_credits := Some 0,
                            shadow_balance := 480\<rparr>]\<rparr> \<and>
   js_sum 0
     (filter (\<lambda>tx. user_id tx = ''alice'' \<and> tx_type tx = debit \<and>
                   sync_status tx \<in> {pending, syncing, failed})
        [(example_tx ''f1'' debit 30)\<lparr>sync_status := failed\<rparr>,
         example_tx ''p1'' debit 20]) = Some 50 \<and>
   js_sub (cached_balance example_wallet) 50 = Some 450 \<and>
   js_add 450 0 = Some 450"
  by (simp add: updateWalletPendingAmounts_def getPendingTransactions_def
      getWalletState_def updateWalletState_def example_local_def example_tx_def
      example_wallet_def js_add_def js_sub_def round_double_examples)

subsection \<open>Status transitions\<close>

lemma collection_modify_twice:
  assumes "\<And>r. sel r \<Longrightarrow> sel (f r)" "\<And>r. sel r \<Longrightarrow> g (f r) = g r"
  shows "collection_modify sel g (collection_modify sel f rows) = collection_modify sel g rows"
  using assms by (induction rows) (simp_all add: collection_modify_def)

text \<open>
  Claim C7, as the code has it. \<^verbatim>\<open>markTransactionsSynced\<close> is idempotent and leaves a
  row that is already \<open>synced\<close> unchanged. \<^verbatim>\<open>updateTransactionStatus\<close> without
  \<^verbatim>\<open>incrementRetry\<close> writes the status and the time of the call into every row of that
  \<^verbatim>\<open>offline_id\<close>, whatever state the row is in: two such calls leave the store as the
  second call alone does, so the operation is idempotent up to \<^verbatim>\<open>last_sync_attempt\<close>
  (and exactly, when both calls read the same clock value). Rows of another
  \<^verbatim>\<open>offline_id\<close> are not changed. There is no guard for terminal states: every row named
  is marked, and with \<^verbatim>\<open>incrementRetry\<close> every call sets the retry count to one more than
  that of the first row of the \<^verbatim>\<open>offline_id\<close>.
\<close>

theorem status_marking:
  "markTransactionsSynced ids (markTransactionsSynced ids db) = markTransactionsSynced ids db \<and>
   (\<forall>i < length (transactions db). sync_status (transactions db ! i) = synced \<longrightarrow>
      transactions (markTransactionsSynced ids db) ! i = transactions db ! i) \<and>
   (\<forall>i < length (transactions db). offline_id (transactions db ! i) \<in> set ids \<longrightarrow>
      transactions (markTransactionsSynced ids db) ! i =
        (transactions db ! i)\<lparr>sync_status := synced\<rparr>) \<and>
   updateTransactionStatus oid status False now2
     (updateTransactionStatus oid status False now1 db) =
     updateTransactionStatus oid status False now2 db \<and>
   (\<forall>i < length (transactions db). offline_id (transactions db ! i) \<noteq> oid \<longrightarrow>
      transactions (updateTransactionStatus oid status incr now1 db) ! i =
        transactions db ! i) \<and>
   (\<forall>i < length (transactions db). offline_id (transactions db ! i) = oid \<longrightarrow>
      sync_status (transactions (updateTransactionStatus oid status incr now1 db) ! i) = status \<and>
      last_sync_attempt (transactions (updateTransactionStatus oid status incr now1 db) ! i) =
        Some now1) \<and>
   (\<forall>t. find (\<lambda>tx. offline_id tx = oid) (transactions db) = Some t \<longrightarrow>
      (\<forall>i < length (transactions db). offline_id (transactions db ! i) = oid \<longrightarrow>
         retry_count (transactions (updateTransactionStatus oid status True now1 db) ! i) =
           Some ((case retry_count t of None \<Rightarrow> 0 | Some c \<Rightarrow> c) + 1)))"
proof -
  have m1: "markTransactionsSynced ids (markTransactionsSynced ids db) =
            markTransactionsSynced ids db"
    by (simp add: markTransactionsSynced_def collection_modify_twice)
  have m2: "\<forall>i < length (transactions db). sync_status (transactions db ! i) = synced \<longrightarrow>
      transactions (markTransactionsSynced ids db) ! i = transactions db ! i"
    by (simp add: markTransactionsSynced_def collection_modify_def)
  have m3: "\<forall>i < length (transactions db). offline_id (transactions db ! i) \<in> set ids \<longrightarrow>
      transactions (markTransactionsSynced ids db) ! i =
        (transactions db ! i)\<lparr>sync_status := synced\<rparr>"
    by (simp add: markTransactionsSynced_def collection_modify_def)
  have u1: "updateTransactionStatus oid status False now2
     (updateTransactionStatus oid status False now1 db) =
     updateTransactionStatus oid status False now2 db"
    by (simp add: updateTransactionStatus_def collection_modify_twice)
  have u2: "\<forall>i < length (transactions db). offline_id (transactions db ! i) \<noteq> oid \<longrightarrow>
      transactions (updateTransactionStatus oid status incr now1 db) ! i =
        transactions db ! i"
    by (simp add: updateTransactionStatus_def collection_modify_def Let_def)
  have u3: "\<forall>i < length (transactions db). offline_id (transactions db ! i) = oid \<longrightarrow>
      sync_status (transactions (updateTransactionStatus oid status incr now1 db) ! i) = status \<and>
      last_sync_attempt (transactions (updateTransactionStatus oid status incr now1 db) ! i) =
        Some now1"
    by (simp add: updateTransactionStatus_def collection_modify_def Let_def
        split: option.splits)
  have u4: "\<forall>t. find (\<lambda>tx. offline_id tx = oid) (transactions db) = Some t \<longrightarrow>
      (\<forall>i < length (transactions db). offline_id (transactions db ! i) = oid \<longrightarrow>
         retry_count (transactions (updateTransactionStatus oid status True now1 db) ! i) =
           Some ((case retry_count t of None \<Rightarrow> 0 | Some c \<Rightarrow> c) + 1))"
    by (simp add: updateTransactionStatus_def collection_modify_def)
  from m1 m2 m3 u1 u2 u3 u4 show ?thesis by (intro conjI)
qed

text \<open>
  The instance: marking \<open>a\<close> synced twice is marking it once, and marking \<open>a\<close> failed at
  time 10 and again at time 20 leaves the row as one marking at time 20 does.
\<close>

theorem status_marking_witness:
  "markTransactionsSynced [''a'']
     (markTransactionsSynced [''a''] (example_local [example_tx ''a'' debit 10])) =
     example_local [(example_tx ''a'' debit 10)\<lparr>sync_status := synced\<rparr>] \<and>
   updateTransactionStatus ''a'' failed False 20
     (updateTransactionStatus ''a'' failed False 10 (example_local [example_tx ''a'' debit 10])) =
     example_local
       [(example_tx ''a'' debit 10)\<lparr>sync_status := failed, last_sync_attempt := Some 20\<rparr>]"
proof -
  let ?db = "example_local [example_tx ''a'' debit 10]"
  have once: "markTransactionsSynced [''a''] ?db =
              example_local [(example_tx ''a'' debit 10)\<lparr>sync_status := synced\<rparr>]"
    by (simp add: markTransactionsSynced_def collection_modify_def example_local_def
        example_tx_def)
  have once': "updateTransactionStatus ''a'' failed False 20 ?db =
     example_local
       [(example_tx ''a'' debit 10)\<lparr>sync_status := failed, last_sync_attempt := Some 20\<rparr>]"
    by (simp add: updateTransactionStatus_def collection_modify_def example_local_def
        example_tx_def)
  from status_marking [of "[''a'']" ?db "''a''" failed 20 10] once once'
  show ?thesis by simp
qed

text \<open>
  The claim as stated fails for \<^verbatim>\<open>updateTransactionStatus\<close>. Re-marking a row that is
  already in \<open>conflict\<close> changes it (the time of the last attempt moves from 10 to 20), and
  marking a row failed with \<^verbatim>\<open>incrementRetry\<close> twice leaves a retry count of 2 where one
  marking leaves 1. \<^verbatim>\<open>markTransactionsSynced\<close> on a row in \<open>conflict\<close> makes it \<open>synced\<close>.
\<close>

theorem status_marking_counterexample:
  "updateTransactionStatus ''a'' conflict False 20
     (example_local
        [(example_tx ''a'' debit 10)\<lparr>sync_status := conflict, last_sync_attempt := Some 10\<rparr>]) =
     example_local
        [(example_tx ''a'' debit 10)\<lparr>sync_status := conflict, last_sync_attempt := Some 20\<rparr>] \<and>
   updateTransactionStatus ''a'' failed True 10 (example_local [example_tx ''a'' debit 10]) =
     example_local
        [(example_tx ''a'' debit 10)\<lparr>sync_status := failed, retry_count := Some 1,
                                       last_sync_attempt := Some 10\<rparr>] \<and>
   updateTransactionStatus ''a'' failed True 10
     (updateTransactionStatus ''a'' failed True 10 (example_local [example_tx ''a'' debit 10])) =
     example_local
        [(example_tx ''a'' debit 10)\<lparr>sync_status := failed, retry_count := Some 2,
                                       last_sync_attempt := Some 10\<rparr>] \<and>
   markTransactionsSynced [''a'']
     (example_local [(example_tx ''a'' debit 10)\<lparr>sync_status := conflict\<rparr>]) =
     example_local [(example_tx ''a'' debit 10)\<lparr>sync_status := synced\<rparr>]"
  by (simp add: updateTransactionStatus_def markTransactionsSynced_def collection_modify_def
      example_local_def example_tx_def)

subsection \<open>Entries the server reports as failed\<close>

text \<open>
  Claim C5, as the code has it. Applying a sync response marks the entries of
  \<^verbatim>\<open>processed_ids\<close> synced and does not read \<^verbatim>\<open>failed_ids\<close>: an entry reported with a
  failure reason (and not in \<^verbatim>\<open>processed_ids\<close>) keeps its status and its retry count, and
  a pending one is in the next batch again; there is no retry ceiling and no transition to
  \<open>conflict\<close> in the sync engine. A batch holds rows in \<open>pending\<close> state only, so a row
  that \<^verbatim>\<open>updateTransactionStatus\<close> has put into \<open>failed\<close> or \<open>conflict\<close> state is in no
  later batch. \<^verbatim>\<open>updateTransactionStatus\<close> with \<^verbatim>\<open>incrementRetry\<close> sets the given status
  and adds one to the retry count of the first row of that \<^verbatim>\<open>offline_id\<close>, whatever the
  count is.
\<close>

theorem sync_leaves_failed_entries:
  fixes db :: local_db
  defines "upd \<equiv> \<lambda>oid status now. transactions (updateTransactionStatus oid status True now db)"
  assumes "online" "configured" "getPendingTransactions userId db \<noteq> []"
    and "rpc (getPendingTransactions userId db) = Inr response"
  shows "transactions (snd (syncOfflineTransactions online configured rpc now userId db)) =
           map (\<lambda>tx. if offline_id tx \<in> set (processed_ids response)
                      then tx\<lparr>sync_status := synced\<rparr> else tx) (transactions db) \<and>
         (\<forall>tx \<in> set (getPendingTransactions userId db).
            offline_id tx \<notin> set (processed_ids response) \<longrightarrow>
            tx \<in> set (getPendingTransactions userId
                        (snd (syncOfflineTransactions online configured rpc now userId db)))) \<and>
         (\<forall>u d. \<forall>tx \<in> set (getPendingTransactions u d). sync_status tx = pending) \<and>
         (\<forall>oid status t now. find (\<lambda>tx. offline_id tx = oid) (transactions db) = Some t \<longrightarrow>
            (\<forall>i < length (transactions db). offline_id (transactions db ! i) = oid \<longrightarrow>
               sync_status (upd oid status now ! i) = status \<and>
               retry_count (upd oid status now ! i) =
                 Some ((case retry_count t of None \<Rightarrow> 0 | Some c \<Rightarrow> c) + 1)))"
proof -
  let ?db' = "snd (syncOfflineTransactions online configured rpc now userId db)"
  have txs: "transactions ?db' =
           map (\<lambda>tx. if offline_id tx \<in> set (processed_ids response)
                      then tx\<lparr>sync_status := synced\<rparr> else tx) (transactions db)"
    using assms(2-5)
    by (rule sync_transactions [where online = online and configured = configured
          and rpc = rpc and userId = userId and db = db])
  have stay: "\<forall>tx \<in> set (getPendingTransactions userId db).
            offline_id tx \<notin> set (processed_ids response) \<longrightarrow>
            tx \<in> set (getPendingTransactions userId ?db')"
    unfolding getPendingTransactions_def txs by force
  have pend: "\<forall>u d. \<forall>tx \<in> set (getPendingTransactions u d). sync_status tx = pending"
    by (simp add: getPendingTransactions_def)
  have incr: "\<forall>oid status t now. find (\<lambda>tx. offline_id tx = oid) (transactions db) = Some t \<longrightarrow>
            (\<forall>i < length (transactions db). offline_id (transactions db ! i) = oid \<longrightarrow>
               sync_status (upd oid status now ! i) = status \<and>
               retry_count (upd oid status now ! i) =
                 Some ((case retry_count t of None \<Rightarrow> 0 | Some c \<Rightarrow> c) + 1))"
    by (simp add: upd_def updateTransactionStatus_def collection_modify_def)
  from txs stay pend incr show ?thesis by (intro conjI)
qed

text \<open>
  The instance: the server rejects the pending debit of 100 for insufficient balance (the
  example balance is 50); the row stays as it was, with its retry count of 5, and makes
  up the next batch.
\<close>

theorem sync_leaves_failed_entries_witness:
  "transactions
     (snd (syncOfflineTransactions True True
             (supabase_rpc 7 (Some ''alice'') example_server) 9 ''alice''
             (example_local [(example_tx ''d1'' debit 100)\<lparr>retry_count := Some 5\<rparr>]))) =
     [(example_tx ''d1'' debit 100)\<lparr>retry_count := Some 5\<rparr>] \<and>
   (example_tx ''d1'' debit 100)\<lparr>retry_count := Some 5\<rparr> \<in>
     set (getPendingTransactions ''alice''
       (snd (syncOfflineTransactions True True
               (supabase_rpc 7 (Some ''alice'') example_server) 9 ''alice''
               (example_local [(example_tx ''d1'' debit 100)\<lparr>retry_count := Some 5\<rparr>]))))"
proof -
  let ?tx = "(example_tx ''d1'' debit 100)\<lparr>retry_count := Some 5\<rparr>"
  let ?db = "example_local [?tx]"
  let ?r = "\<lparr>error = None, processed_ids = [],
             failed_ids = [(''d1'', ''Insufficient balance'')], new_balance = Some 50\<rparr>"
  have pend: "getPendingTransactions ''alice'' ?db = [?tx]"
    by (simp add: getPendingTransactions_def example_local_def example_tx_def)
  then have ne: "getPendingTransactions ''alice'' ?db \<noteq> []" by simp
  have rpc: "supabase_rpc 7 (Some ''alice'') example_server
               (getPendingTransactions ''alice'' ?db) = Inr ?r"
    unfolding pend
    by (simp add: supabase_rpc_def process_offline_batch_def example_server_def
        example_tx_def process_tx_def existing_count_def numeric_12_2_numeral
        fits_bigint_def)
  from sync_leaves_failed_entries [where online = True and configured = True
      and rpc = "supabase_rpc 7 (Some ''alice'') example_server" and userId = "''alice''"
      and db = ?db and now = 9, OF TrueI TrueI ne rpc]
  have "transactions
          (snd (syncOfflineTransactions True True
                  (supabase_rpc 7 (Some ''alice'') example_server) 9 ''alice'' ?db)) =
          map (\<lambda>tx. if offline_id tx \<in> set (processed_ids ?r)
                      then tx\<lparr>sync_status := synced\<rparr> else tx) (transactions ?db)"
    and "\<forall>tx \<in> set (getPendingTransactions ''alice'' ?db).
            offline_id tx \<notin> set (processed_ids ?r) \<longrightarrow>
            tx \<in> set (getPendingTransactions ''alice''
                        (snd (syncOfflineTransactions True True
                  (supabase_rpc 7 (Some ''alice'') example_server) 9 ''alice'' ?db)))"
    by blast+
  then show ?thesis
    unfolding pend by (simp add: example_local_def)
qed

text \<open>
  The claim as stated fails on that input: the entry the server reports in
  \<^verbatim>\<open>failed_ids\<close> is neither marked failed nor moved to \<open>conflict\<close>, its retry count stays
  at 5, and it is the batch of the next cycle.
\<close>

theorem sync_leaves_failed_entries_counterexample:
  "syncOfflineTransactions True True
     (supabase_rpc 7 (Some ''alice'') example_server) 9 ''alice''
     (example_local [(example_tx ''d1'' debit 100)\<lparr>retry_count := Some 5\<rparr>]) =
     (Some \<lparr>error = None, processed_ids = [],
            failed_ids = [(''d1'', ''Insufficient balance'')], new_balance = Some 50\<rparr>,
      \<lparr>transactions = [(example_tx ''d1'' debit 100)\<lparr>retry_count := Some 5\<rparr>],
       wallet = [''alice'' \<mapsto>
         \<lparr>wallet_id = ''alice'', cached_balance = 50, shadow_balance = 50, last_updated = 9,
          pending_debits = None, pending_credits = None, last_sync_success = None\<rparr>]\<rparr>) \<and>
   getPendingTransactions ''alice''
     \<lparr>transactions = [(example_tx ''d1'' debit 100)\<lparr>retry_count := Some 5\<rparr>],
      wallet = [''alice'' \<mapsto>
         \<lparr>wallet_id = ''alice'', cached_balance = 50, shadow_balance = 50, last_updated = 9,
          pending_debits = None, pending_credits = None, last_sync_success = None\<rparr>]\<rparr> =
     [(example_tx ''d1'' debit 100)\<lparr>retry_count := Some 5\<rparr>] \<and>
   sync_status ((example_tx ''d1'' debit 100)\<lparr>retry_count := Some 5\<rparr>) = pending"
  by (simp add: syncOfflineTransactions_def getPendingTransactions_def updateWalletState_def
      supabase_rpc_def process_offline_batch_def example_server_def example_local_def
      example_tx_def process_tx_def existing_count_def numeric_12_2_numeral
        fits_bigint_def)

subsection \<open>A response that carries only an error\<close>

text \<open>
  Claim C4 does not hold of the code. When the server answers "Not authenticated" (with
  empty lists and \<^verbatim>\<open>new_balance\<close> 0), the sync cycle leaves the transactions as they
  were, but it does not look at \<^verbatim>\<open>error\<close>: the balance 0 is not \<^verbatim>\<open>undefined\<close>, so the
  user's wallet is replaced by one with a cached and shadow balance of 0. Here the wallet
  held a cached balance of 500 and a shadow balance of 400 before the cycle.
\<close>

theorem sync_error_response_overwrites_wallet:
  "syncOfflineTransactions True True (supabase_rpc 7 None example_server) 9 ''alice''
     (example_local [example_tx ''p1'' debit 30]) =
     (Some \<lparr>error = Some ''Not authenticated'', processed_ids = [], failed_ids = [],
            new_balance = Some 0\<rparr>,
      \<lparr>transactions = [example_tx ''p1'' debit 30],
       wallet = [''alice'' \<mapsto>
         \<lparr>wallet_id = ''alice'', cached_balance = 0, shadow_balance = 0, last_updated = 9,
          pending_debits = None, pending_credits = None, last_sync_success = None\<rparr>]\<rparr>) \<and>
   wallet (example_local [example_tx ''p1'' debit 30]) ''alice'' = Some example_wallet \<and>
   cached_balance example_wallet = 500 \<and> shadow_balance example_wallet = 400"
  by (simp add: syncOfflineTransactions_def getPendingTransactions_def updateWalletState_def
      supabase_rpc_def process_offline_batch_def example_local_def example_wallet_def
      example_tx_def)

end
